theory Spec2Isabelle
  imports Main
begin

section \<open>Python values and their JSON serialisation\<close>

text \<open>
  The functions of \<^verbatim>\<open>src/api/evaluate/evaluators.py\<close> take arguments of any type.
  \<open>pyval\<close> holds \<^verbatim>\<open>None\<close>, booleans, integers (unbounded, as in Python), strings,
  lists and dictionaries with string keys; a dictionary is an association list in
  insertion order. \<open>PyObject t\<close> stands for a value of any other kind, named by \<open>t\<close>:
  a float, a set, a bytes object, an instance of a class, a list that contains itself.
  A \<open>string\<close> is read as a sequence of code points below 256.
\<close>

datatype pyval =
    PyNone
  | PyBool bool
  | PyInt int
  | PyStr string
  | PyList "pyval list"
  | PyDict "(string \<times> pyval) list"
  | PyObject string

text \<open>
  \<^verbatim>\<open>json.dumps\<close> is library code, and it can raise: \<^verbatim>\<open>TypeError\<close> on an object it does
  not serialise, \<^verbatim>\<open>ValueError\<close> on a structure that contains itself or on an integer
  beyond the interpreter's digit limit, \<^verbatim>\<open>RecursionError\<close> on deep nesting. It is a
  parameter of the model: a \<open>serialiser\<close> maps a value to the exception raised or to
  the text returned.
\<close>

datatype json_error = TypeError | ValueError | RecursionError

type_synonym serialiser = "pyval \<Rightarrow> json_error + string"

text \<open>\<^verbatim>\<open>d.get(k)\<close> on a value: the entry of a dictionary, \<open>None\<close> for anything else.\<close>

fun dict_get :: "pyval \<Rightarrow> string \<Rightarrow> pyval option" where
  "dict_get (PyDict kvs) k = map_of kvs k"
| "dict_get _ k = None"

fun dict_keys :: "pyval \<Rightarrow> string list" where
  "dict_keys (PyDict kvs) = map fst kvs"
| "dict_keys _ = []"

text \<open>Decimal digits of a natural number, most significant first (\<^verbatim>\<open>int.__repr__\<close>).\<close>

function str_nat :: "nat \<Rightarrow> string" where
  "str_nat n =
     (if n < 10 then [char_of (48 + n)]
      else str_nat (n div 10) @ [char_of (48 + n mod 10)])"
  by pat_completeness auto
termination
  by (relation "measure id") auto

declare str_nat.simps [simp del]

definition str_int :: "int \<Rightarrow> string" where
  "str_int i = (if i < 0 then CHR ''-'' # str_nat (nat (- i)) else str_nat (nat i))"

definition hex_digit :: "nat \<Rightarrow> char" where
  "hex_digit n = (if n < 10 then char_of (48 + n) else char_of (87 + n))"

text \<open>
  One character of a JSON string with \<^verbatim>\<open>ensure_ascii=True\<close> (the default): the quote
  and the backslash are escaped, the five short escapes are used, printable ASCII is
  copied, and every other code point is written \<^verbatim>\<open>\u00xx\<close>.
\<close>

definition escape_char :: "char \<Rightarrow> string" where
  "escape_char c =
     (if c = CHR 0x22 then [CHR 0x5C, CHR 0x22]
      else if c = CHR 0x5C then [CHR 0x5C, CHR 0x5C]
      else if c = CHR 0x0A then [CHR 0x5C, CHR ''n'']
      else if c = CHR 0x0D then [CHR 0x5C, CHR ''r'']
      else if c = CHR 0x09 then [CHR 0x5C, CHR ''t'']
      else if c = CHR 0x08 then [CHR 0x5C, CHR ''b'']
      else if c = CHR 0x0C then [CHR 0x5C, CHR ''f'']
      else if (32::nat) \<le> of_char c \<and> (of_char c :: nat) \<le> 126 then [c]
      else [CHR 0x5C, CHR ''u'', CHR ''0'', CHR ''0'',
            hex_digit (of_char c div 16), hex_digit (of_char c mod 16)])"

definition encode_basestring_ascii :: "string \<Rightarrow> string" where
  "encode_basestring_ascii s = [CHR 0x22] @ concat (map escape_char s) @ [CHR 0x22]"

fun join_str :: "string \<Rightarrow> string list \<Rightarrow> string" where
  "join_str sep [] = []"
| "join_str sep [x] = x"
| "join_str sep (x # y # ys) = x @ sep @ join_str sep (y # ys)"

text \<open>
  The text that \<^verbatim>\<open>json.dumps(v)\<close> returns with its default arguments, where it
  returns: the separators are \<^verbatim>\<open>", "\<close> and \<^verbatim>\<open>": "\<close>. For an object of another kind
  the text is its name.
\<close>

fun json_text :: "pyval \<Rightarrow> string" where
  "json_text PyNone = ''null''"
| "json_text (PyBool b) = (if b then ''true'' else ''false'')"
| "json_text (PyInt i) = str_int i"
| "json_text (PyStr s) = encode_basestring_ascii s"
| "json_text (PyList xs) = ''['' @ join_str '', '' (map json_text xs) @ '']''"
| "json_text (PyDict kvs) =
     ''{'' @ join_str '', ''
        (map (\<lambda>kv. encode_basestring_ascii (fst kv) @ '': '' @ json_text (snd kv)) kvs) @ ''}''"
| "json_text (PyObject t) = t"

declare json_text.simps [simp del]

text \<open>No object of another kind occurs in the value.\<close>

fun plain_data :: "pyval \<Rightarrow> bool" where
  "plain_data (PyList xs) = list_all plain_data xs"
| "plain_data (PyDict kvs) = list_all (\<lambda>kv. plain_data (snd kv)) kvs"
| "plain_data (PyObject t) = False"
| "plain_data _ = True"

text \<open>
  The serialiser of the examples below: it raises \<^verbatim>\<open>TypeError\<close> on a value that holds
  an object of another kind, as \<^verbatim>\<open>json.dumps\<close> does on a set or on bytes, and returns
  the text otherwise. It knows no limit of the interpreter; the theorems are about
  every serialiser.
\<close>

definition example_dumps :: serialiser where
  "example_dumps v = (if plain_data v then Inr (json_text v) else Inl TypeError)"

text \<open>An f-string field: \<^verbatim>\<open>None\<close> is formatted as the text \<^verbatim>\<open>None\<close>.\<close>

fun format_field :: "string option \<Rightarrow> string" where
  "format_field None = ''None''"
| "format_field (Some s) = s"

section \<open>The process state\<close>

text \<open>
  The module reads \<^verbatim>\<open>os.environ\<close>, talks to the OpenTelemetry tracer, prints, and calls
  constructors of the vendor SDK. Each of these is a field of the state that the
  functions below pass along. An exception is a \<^verbatim>\<open>KeyError\<close> of \<^verbatim>\<open>os.environ\<close>, an
  exception raised inside \<^verbatim>\<open>json.dumps\<close>, or one raised by a vendor constructor.
  \<^item> \<open>environ\<close> is \<^verbatim>\<open>os.environ\<close>;
  \<^item> \<open>current_context\<close> is the tracing context that is current;
  \<^item> \<open>open_spans\<close> lists the spans that have started and not ended, innermost first;
  \<^item> \<open>finished_spans\<close> lists the spans that have ended, oldest first; a span holds the
    name it was started with, the context it was started in and the attributes set
    on it;
  \<^item> \<open>printed\<close> lists the calls of \<^verbatim>\<open>print\<close>, each with its arguments;
  \<^item> \<open>constructed\<close> lists the vendor classes whose constructor has returned.
\<close>

datatype py_error = KeyError string | JSONError json_error | VendorError string

datatype span_ref = INVALID_SPAN | SpanRef nat

record Context =
  ctx_span :: "span_ref option"

record span =
  span_name :: string
  span_parent :: Context
  span_attributes :: "(string \<times> string) list"

datatype vendor_class =
    RelevanceEvaluator | GroundednessEvaluator | FluencyEvaluator | CoherenceEvaluator
  | ViolenceEvaluator | HateUnfairnessEvaluator | SelfHarmEvaluator | SexualEvaluator
  | ViolenceMultimodalEvaluator | SelfHarmMultimodalEvaluator
  | HateUnfairnessMultimodalEvaluator | SexualMultimodalEvaluator
  | ProtectedMaterialMultimodalEvaluator
  | DefaultAzureCredential

text \<open>
  An object held by an evaluator: plain data, an instance of a vendor class with the
  arguments it was constructed from, or an instance of the module's own
  \<^verbatim>\<open>FriendlinessEvaluator\<close>, which has no attributes.
\<close>

datatype object =
    Value pyval
  | Instance vendor_class "(string \<times> object) list"
  | FriendlinessEvaluator

record world =
  environ :: "string \<rightharpoonup> string"
  current_context :: Context
  open_spans :: "span list"
  finished_spans :: "span list"
  printed :: "pyval list list"
  constructed :: "vendor_class list"

text \<open>
  The vendor SDK (\<^verbatim>\<open>azure.ai.evaluation\<close>, \<^verbatim>\<open>azure.identity\<close>) is not part of the
  repository. It is a parameter: \<open>sdk cls args\<close> is \<open>None\<close> when the constructor of
  \<open>cls\<close> returns on the arguments \<open>args\<close>, and \<open>Some msg\<close> when it raises.
\<close>

type_synonym sdk = "vendor_class \<Rightarrow> (string \<times> object) list \<Rightarrow> string option"

text \<open>
  A statement that may raise: it maps the state to an exception or a value, and to the
  state it leaves. No function of the module has a \<^verbatim>\<open>try\<close>, so an exception ends
  every enclosing statement: \<open>and_then\<close> runs the rest only after a value.
\<close>

type_synonym 'a action = "world \<Rightarrow> (py_error + 'a) \<times> world"

definition and_then :: "'a action \<Rightarrow> ('a \<Rightarrow> 'b action) \<Rightarrow> 'b action" where
  "and_then m f w = (case m w of (Inl e, w') \<Rightarrow> (Inl e, w') | (Inr x, w') \<Rightarrow> f x w')"

definition returns :: "'a \<Rightarrow> 'a action" where
  "returns x w = (Inr x, w)"

text \<open>\<^verbatim>\<open>os.environ[k]\<close> raises \<^verbatim>\<open>KeyError\<close> on a variable that is not set.\<close>

definition environ_getitem :: "string \<Rightarrow> string action" where
  "environ_getitem k w =
     (case environ w k of None \<Rightarrow> (Inl (KeyError k), w) | Some v \<Rightarrow> (Inr v, w))"

text \<open>\<^verbatim>\<open>os.getenv(k)\<close> is \<^verbatim>\<open>None\<close> on a variable that is not set.\<close>

definition getenv :: "string \<Rightarrow> string option action" where
  "getenv k w = (Inr (environ w k), w)"

definition construct :: "sdk \<Rightarrow> vendor_class \<Rightarrow> (string \<times> object) list \<Rightarrow> object action" where
  "construct sdk cls args w =
     (case sdk cls args of
        Some msg \<Rightarrow> (Inl (VendorError msg), w)
      | None \<Rightarrow> (Inr (Instance cls args), w\<lparr>constructed := constructed w @ [cls]\<rparr>))"

text \<open>\<^verbatim>\<open>json.dumps(v)\<close>: the exception of the serialiser, or its text.\<close>

definition json_dumps :: "serialiser \<Rightarrow> pyval \<Rightarrow> string action" where
  "json_dumps dumps v w =
     (case dumps v of Inl e \<Rightarrow> (Inl (JSONError e), w) | Inr text \<Rightarrow> (Inr text, w))"

definition py_print :: "pyval list \<Rightarrow> unit action" where
  "py_print args w = (Inr (), w\<lparr>printed := printed w @ [args]\<rparr>)"

subsection \<open>Tracing\<close>

text \<open>
  \<^verbatim>\<open>trace.get_current_span()\<close> is the span of the current context, the invalid span
  when there is none; \<^verbatim>\<open>set_span_in_context(span)\<close> is the current context with its
  span replaced.
\<close>

definition get_current_span :: "world \<Rightarrow> span_ref" where
  "get_current_span w =
     (case ctx_span (current_context w) of None \<Rightarrow> INVALID_SPAN | Some s \<Rightarrow> s)"

definition set_span_in_context :: "span_ref \<Rightarrow> world \<Rightarrow> Context" where
  "set_span_in_context s w = (current_context w)\<lparr>ctx_span := Some s\<rparr>"

text \<open>\<^verbatim>\<open>d[k] = v\<close> on a dictionary in insertion order.\<close>

fun setitem :: "'k \<Rightarrow> 'v \<Rightarrow> ('k \<times> 'v) list \<Rightarrow> ('k \<times> 'v) list" where
  "setitem k v [] = [(k, v)]"
| "setitem k v ((k', v') # kvs) =
     (if k' = k then (k, v) # kvs else (k', v') # setitem k v kvs)"

definition start_span :: "string \<Rightarrow> Context \<Rightarrow> span" where
  "start_span name ctx = \<lparr>span_name = name, span_parent = ctx, span_attributes = []\<rparr>"

text \<open>
  \<^verbatim>\<open>span.set_attribute(k, v)\<close> inside a \<^verbatim>\<open>with\<close> block acts on the span that the block
  has opened, the innermost open span.
\<close>

definition set_attribute :: "string \<Rightarrow> string \<Rightarrow> unit action" where
  "set_attribute k v w =
     (Inr (),
      case open_spans w of
        [] \<Rightarrow> w
      | s # ss \<Rightarrow> w\<lparr>open_spans := s\<lparr>span_attributes := setitem k v (span_attributes s)\<rparr> # ss\<rparr>)"

definition end_span :: "world \<Rightarrow> world" where
  "end_span w =
     (case open_spans w of
        [] \<Rightarrow> w
      | s # ss \<Rightarrow> w\<lparr>open_spans := ss, finished_spans := finished_spans w @ [s]\<rparr>)"

text \<open>
  \<^verbatim>\<open>with tracer.start_as_current_span(name, context=ctx) as span: body\<close>. The span is
  started with \<open>ctx\<close> as its parent context and made the span of the current context.
  Leaving the block, by a \<^verbatim>\<open>return\<close> or by an exception, restores the context
  that was current before and ends the span; the exception is not caught.
\<close>

definition start_as_current_span :: "string \<Rightarrow> Context \<Rightarrow> 'a action \<Rightarrow> 'a action" where
  "start_as_current_span name ctx body w =
     (let token = current_context w;
          ref = SpanRef (length (finished_spans w) + length (open_spans w));
          w1 = w\<lparr>current_context := set_span_in_context ref w,
                 open_spans := start_span name ctx # open_spans w\<rparr>
      in case body w1 of (r, w2) \<Rightarrow> (r, end_span (w2\<lparr>current_context := token\<rparr>)))"

text \<open>Importing the module sets one environment variable (line 32).\<close>

definition module_import :: "world \<Rightarrow> world" where
  "module_import w = w\<lparr>environ := (environ w)(''PF_LOGGING_LEVEL'' \<mapsto> ''CRITICAL'')\<rparr>"

section \<open>The evaluator classes\<close>

definition FriendlinessEvaluator_init :: object where
  "FriendlinessEvaluator_init = FriendlinessEvaluator"

definition FriendlinessEvaluator_call :: "object \<Rightarrow> pyval \<Rightarrow> pyval" where
  "FriendlinessEvaluator_call self response = PyDict [(''score'', PyInt 5)]"

text \<open>
  \<^verbatim>\<open>ArticleEvaluator\<close> and \<^verbatim>\<open>ImageEvaluator\<close> have the same two attributes,
  \<^verbatim>\<open>self.evaluators\<close> and \<^verbatim>\<open>self.project_scope\<close>.
\<close>

record evaluator =
  self_evaluators :: "(string \<times> object) list"
  self_project_scope :: pyval

text \<open>
  \<^verbatim>\<open>ArticleEvaluator.__init__\<close>: the dictionary display evaluates its values in order,
  and each safety evaluator is called with a credential constructed for it.
\<close>

definition ArticleEvaluator_init :: "sdk \<Rightarrow> pyval \<Rightarrow> pyval \<Rightarrow> evaluator action" where
  "ArticleEvaluator_init sdk model_config project_scope =
     and_then (construct sdk RelevanceEvaluator [(''model_config'', Value model_config)]) (\<lambda>relevance.
     and_then (construct sdk FluencyEvaluator [(''model_config'', Value model_config)]) (\<lambda>fluency.
     and_then (construct sdk CoherenceEvaluator [(''model_config'', Value model_config)]) (\<lambda>coherence.
     and_then (construct sdk GroundednessEvaluator [(''model_config'', Value model_config)]) (\<lambda>groundedness.
     and_then (construct sdk DefaultAzureCredential []) (\<lambda>credential.
     and_then (construct sdk ViolenceEvaluator
        [(''azure_ai_project'', Value project_scope), (''credential'', credential)]) (\<lambda>violence.
     and_then (construct sdk DefaultAzureCredential []) (\<lambda>credential.
     and_then (construct sdk HateUnfairnessEvaluator
        [(''azure_ai_project'', Value project_scope), (''credential'', credential)]) (\<lambda>hate_unfairness.
     and_then (construct sdk DefaultAzureCredential []) (\<lambda>credential.
     and_then (construct sdk SelfHarmEvaluator
        [(''azure_ai_project'', Value project_scope), (''credential'', credential)]) (\<lambda>self_harm.
     and_then (construct sdk DefaultAzureCredential []) (\<lambda>credential.
     and_then (construct sdk SexualEvaluator
        [(''azure_ai_project'', Value project_scope), (''credential'', credential)]) (\<lambda>sexual.
     returns
       \<lparr>self_evaluators =
          [(''relevance'', relevance),
           (''fluency'', fluency),
           (''coherence'', coherence),
           (''groundedness'', groundedness),
           (''violence'', violence),
           (''hate_unfairness'', hate_unfairness),
           (''self_harm'', self_harm),
           (''sexual'', sexual),
           (''friendliness'', FriendlinessEvaluator_init)],
        self_project_scope = project_scope\<rparr>))))))))))))"

text \<open>\<^verbatim>\<open>ArticleEvaluator.__call__(self, *, data_path, **kwargs)\<close>.\<close>

definition ArticleEvaluator_call :: "evaluator \<Rightarrow> pyval \<Rightarrow> (string \<times> pyval) list \<Rightarrow> pyval" where
  "ArticleEvaluator_call self data_path kwargs =
     (let dummy_result = PyDict
        [(''studio_url'', PyStr ''https://dummy-eval.azure.com''),
         (''metrics'', PyDict
            [(''relevance.gpt_relevance'', PyInt 5),
             (''fluency.gpt_fluency'', PyInt 5),
             (''coherence.gpt_coherence'', PyInt 5),
             (''groundedness.gpt_groundedness'', PyInt 5),
             (''violence.violence_defect_rate'', PyInt 0),
             (''self_harm.self_harm_defect_rate'', PyInt 0),
             (''hate_unfairness.hate_unfairness_defect_rate'', PyInt 0),
             (''sexual.sexual_defect_rate'', PyInt 0)]),
         (''rows'', PyList [PyDict
            [(''relevance.gpt_relevance'', PyInt 5),
             (''fluency.gpt_fluency'', PyInt 5),
             (''coherence.gpt_coherence'', PyInt 5),
             (''groundedness.gpt_groundedness'', PyInt 5)]])]
      in dummy_result)"

text \<open>
  \<^verbatim>\<open>ImageEvaluator.__init__\<close>: here the credential is the first keyword argument of
  each constructor call.
\<close>

definition ImageEvaluator_init :: "sdk \<Rightarrow> pyval \<Rightarrow> evaluator action" where
  "ImageEvaluator_init sdk project_scope =
     and_then (construct sdk DefaultAzureCredential []) (\<lambda>credential.
     and_then (construct sdk ViolenceMultimodalEvaluator
        [(''credential'', credential), (''azure_ai_project'', Value project_scope)]) (\<lambda>violence.
     and_then (construct sdk DefaultAzureCredential []) (\<lambda>credential.
     and_then (construct sdk SelfHarmMultimodalEvaluator
        [(''credential'', credential), (''azure_ai_project'', Value project_scope)]) (\<lambda>self_harm.
     and_then (construct sdk DefaultAzureCredential []) (\<lambda>credential.
     and_then (construct sdk HateUnfairnessMultimodalEvaluator
        [(''credential'', credential), (''azure_ai_project'', Value project_scope)]) (\<lambda>hate_unfairness.
     and_then (construct sdk DefaultAzureCredential []) (\<lambda>credential.
     and_then (construct sdk SexualMultimodalEvaluator
        [(''credential'', credential), (''azure_ai_project'', Value project_scope)]) (\<lambda>sexual.
     and_then (construct sdk DefaultAzureCredential []) (\<lambda>credential.
     and_then (construct sdk ProtectedMaterialMultimodalEvaluator
        [(''credential'', credential), (''azure_ai_project'', Value project_scope)]) (\<lambda>protected_material.
     returns
       \<lparr>self_evaluators =
          [(''violence'', violence),
           (''self_harm'', self_harm),
           (''hate_unfairness'', hate_unfairness),
           (''sexual'', sexual),
           (''protected_material'', protected_material)],
        self_project_scope = project_scope\<rparr>))))))))))"

text \<open>\<^verbatim>\<open>ImageEvaluator.__call__(self, *, messages, **kwargs)\<close>.\<close>

definition ImageEvaluator_call :: "evaluator \<Rightarrow> pyval \<Rightarrow> (string \<times> pyval) list \<Rightarrow> pyval" where
  "ImageEvaluator_call self messages kwargs =
     (let dummy_output = PyDict
        [(''studio_url'', PyStr ''https://dummy-image-eval.azure.com''),
         (''metrics'', PyDict
            [(''violence.score'', PyInt 0),
             (''self_harm.score'', PyInt 0),
             (''hate_unfairness.score'', PyInt 0),
             (''sexual.score'', PyInt 0),
             (''protected_material.score'', PyInt 0)]),
         (''rows'', PyList [PyDict
            [(''violence.score'', PyInt 0),
             (''self_harm.score'', PyInt 0),
             (''hate_unfairness.score'', PyInt 0),
             (''sexual.score'', PyInt 0),
             (''protected_material.score'', PyInt 0)]])]
      in dummy_output)"

section \<open>The public functions\<close>

text \<open>
  \<^verbatim>\<open>evaluate_article(data, trace_context)\<close>. The whole body runs inside the
  \<^verbatim>\<open>with\<close> block. \<^verbatim>\<open>json.dumps(data)\<close> is the first call of the body, before the
  attribute \<^verbatim>\<open>inputs\<close> is set and before the environment is read. The calls of
  \<^verbatim>\<open>json.dumps\<close>, the five subscripts of \<^verbatim>\<open>os.environ\<close> and the constructors may
  raise, which skips the rest of the body.
\<close>

definition evaluate_article ::
  "serialiser \<Rightarrow> sdk \<Rightarrow> pyval \<Rightarrow> Context \<Rightarrow> pyval action" where
  "evaluate_article dumps sdk data trace_context =
     start_as_current_span ''run_evaluators'' trace_context
      (and_then (json_dumps dumps data) (\<lambda>inputs.
       and_then (set_attribute ''inputs'' inputs) (\<lambda>_.
       and_then (environ_getitem ''AZURE_OPENAI_4_EVAL_DEPLOYMENT_NAME'') (\<lambda>azure_deployment.
       and_then (environ_getitem ''AZURE_OPENAI_API_VERSION'') (\<lambda>api_version.
       and_then (getenv ''AZURE_OPENAI_NAME'') (\<lambda>openai_name.
       and_then (environ_getitem ''AZURE_SUBSCRIPTION_ID'') (\<lambda>subscription_id.
       and_then (environ_getitem ''AZURE_RESOURCE_GROUP'') (\<lambda>resource_group_name.
       and_then (environ_getitem ''AZURE_AI_PROJECT_NAME'') (\<lambda>project_name.
       let configuration = PyDict
             [(''azure_deployment'', PyStr azure_deployment),
              (''api_version'', PyStr api_version),
              (''azure_endpoint'', PyStr (''https://'' @ format_field openai_name
                  @ ''.cognitiveservices.azure.com/''))];
           project_scope = PyDict
             [(''subscription_id'', PyStr subscription_id),
              (''resource_group_name'', PyStr resource_group_name),
              (''project_name'', PyStr project_name)]
       in
       and_then (ArticleEvaluator_init sdk configuration project_scope) (\<lambda>evaluator.
       let dummy_result = PyDict
             [(''studio_url'', PyStr ''https://dummy-eval.azure.com''),
              (''metrics'', PyDict
                 [(''relevance.gpt_relevance'', PyInt 5),
                  (''fluency.gpt_fluency'', PyInt 5),
                  (''coherence.gpt_coherence'', PyInt 5),
                  (''groundedness.gpt_groundedness'', PyInt 5),
                  (''violence.violence_defect_rate'', PyInt 0),
                  (''self_harm.self_harm_defect_rate'', PyInt 0),
                  (''hate_unfairness.hate_unfairness_defect_rate'', PyInt 0),
                  (''sexual.sexual_defect_rate'', PyInt 0)]),
              (''rows'', PyList [PyDict
                 [(''relevance.gpt_relevance'', PyInt 5),
                  (''fluency.gpt_fluency'', PyInt 5),
                  (''coherence.gpt_coherence'', PyInt 5),
                  (''groundedness.gpt_groundedness'', PyInt 5)]])]
       in
       and_then (json_dumps dumps dummy_result) (\<lambda>output.
       and_then (set_attribute ''output'' output) (\<lambda>_.
       and_then (json_dumps dumps dummy_result) (\<lambda>results.
       and_then (py_print [PyStr ''results: '', PyStr results]) (\<lambda>_.
       returns dummy_result))))))))))))))"

text \<open>
  \<^verbatim>\<open>evaluate_article_in_background\<close>. The dictionary display of \<^verbatim>\<open>eval_data\<close> calls
  \<^verbatim>\<open>json.dumps\<close> three times, in the order of its entries, before \<^verbatim>\<open>evaluate_article\<close>
  is called. The function has no \<^verbatim>\<open>return\<close> statement: it returns \<^verbatim>\<open>None\<close> after
  \<^verbatim>\<open>evaluate_article\<close> has returned.
\<close>

definition evaluate_article_in_background ::
  "serialiser \<Rightarrow> sdk \<Rightarrow> pyval \<Rightarrow> pyval \<Rightarrow> pyval \<Rightarrow> pyval \<Rightarrow> pyval \<Rightarrow> pyval
     \<Rightarrow> pyval action" where
  "evaluate_article_in_background dumps sdk research_context product_context
       assignment_context research products article w =
     (let span = get_current_span w;
          trace_context = set_span_in_context span w
      in
      and_then (json_dumps dumps (PyDict
         [(''research_context'', research_context),
          (''product_context'', product_context),
          (''assignment_context'', assignment_context)])) (\<lambda>query_text.
      and_then (json_dumps dumps (PyDict
         [(''research'', research),
          (''products'', products)])) (\<lambda>context_text.
      and_then (json_dumps dumps article) (\<lambda>response_text.
      let eval_data = PyDict
            [(''query'', PyStr query_text),
             (''context'', PyStr context_text),
             (''response'', PyStr response_text)]
      in
      and_then (evaluate_article dumps sdk eval_data trace_context) (\<lambda>result.
      returns PyNone)))) w)"

text \<open>\<^verbatim>\<open>evaluate_image(messages)\<close>.\<close>

definition evaluate_image :: "pyval \<Rightarrow> pyval action" where
  "evaluate_image messages =
     (let dummy_output = PyDict
        [(''studio_url'', PyStr ''https://dummy-image-eval.azure.com''),
         (''metrics'', PyDict
            [(''violence.score'', PyInt 0),
             (''self_harm.score'', PyInt 0),
             (''hate_unfairness.score'', PyInt 0),
             (''sexual.score'', PyInt 0),
             (''protected_material.score'', PyInt 0)]),
         (''rows'', PyList [PyDict
            [(''violence.score'', PyInt 0),
             (''self_harm.score'', PyInt 0),
             (''hate_unfairness.score'', PyInt 0),
             (''sexual.score'', PyInt 0),
             (''protected_material.score'', PyInt 0)]])]
      in and_then (py_print [PyStr ''Image evaluation (lab mode):'', dummy_output]) (\<lambda>_.
         returns dummy_output))"

section \<open>Vocabulary of the specification\<close>

text \<open>
  The two result literals that the specification speaks of. The four dictionary displays
  in the module are written out in the definitions above; the theorems compare them
  with these two values.
\<close>

definition article_result :: pyval where
  "article_result = PyDict
     [(''studio_url'', PyStr ''https://dummy-eval.azure.com''),
      (''metrics'', PyDict
         [(''relevance.gpt_relevance'', PyInt 5),
          (''fluency.gpt_fluency'', PyInt 5),
          (''coherence.gpt_coherence'', PyInt 5),
          (''groundedness.gpt_groundedness'', PyInt 5),
          (''violence.violence_defect_rate'', PyInt 0),
          (''self_harm.self_harm_defect_rate'', PyInt 0),
          (''hate_unfairness.hate_unfairness_defect_rate'', PyInt 0),
          (''sexual.sexual_defect_rate'', PyInt 0)]),
      (''rows'', PyList [PyDict
         [(''relevance.gpt_relevance'', PyInt 5),
          (''fluency.gpt_fluency'', PyInt 5),
          (''coherence.gpt_coherence'', PyInt 5),
          (''groundedness.gpt_groundedness'', PyInt 5)]])]"

definition image_result :: pyval where
  "image_result = PyDict
     [(''studio_url'', PyStr ''https://dummy-image-eval.azure.com''),
      (''metrics'', PyDict
         [(''violence.score'', PyInt 0),
          (''self_harm.score'', PyInt 0),
          (''hate_unfairness.score'', PyInt 0),
          (''sexual.score'', PyInt 0),
          (''protected_material.score'', PyInt 0)]),
      (''rows'', PyList [PyDict
         [(''violence.score'', PyInt 0),
          (''self_harm.score'', PyInt 0),
          (''hate_unfairness.score'', PyInt 0),
          (''sexual.score'', PyInt 0),
          (''protected_material.score'', PyInt 0)]])]"

text \<open>
  The environment variables that \<^verbatim>\<open>evaluate_article\<close> subscripts \<^verbatim>\<open>os.environ\<close> with,
  in the order of the subscripts, and the first of them that is not set.
\<close>

definition required_variables :: "string list" where
  "required_variables =
     [''AZURE_OPENAI_4_EVAL_DEPLOYMENT_NAME'',
      ''AZURE_OPENAI_API_VERSION'',
      ''AZURE_SUBSCRIPTION_ID'',
      ''AZURE_RESOURCE_GROUP'',
      ''AZURE_AI_PROJECT_NAME'']"

definition first_unset :: "world \<Rightarrow> string option" where
  "first_unset w = find (\<lambda>k. environ w k = None) required_variables"

text \<open>The span of \<^verbatim>\<open>evaluate_article\<close>, with the attributes it has when it ends.\<close>

definition run_evaluators_span :: "Context \<Rightarrow> (string \<times> string) list \<Rightarrow> span" where
  "run_evaluators_span ctx attrs =
     \<lparr>span_name = ''run_evaluators'', span_parent = ctx, span_attributes = attrs\<rparr>"

text \<open>
  The evaluation-input record in the words of the specification: three entries, each
  the JSON text of a structure built from the arguments. \<open>query_structure\<close> and
  \<open>context_structure\<close> are the structures of the first two; the third is the article.
\<close>

definition query_structure :: "pyval \<Rightarrow> pyval \<Rightarrow> pyval \<Rightarrow> pyval" where
  "query_structure research_context product_context assignment_context =
     PyDict
       [(''research_context'', research_context),
        (''product_context'', product_context),
        (''assignment_context'', assignment_context)]"

definition context_structure :: "pyval \<Rightarrow> pyval \<Rightarrow> pyval" where
  "context_structure research products =
     PyDict [(''research'', research), (''products'', products)]"

definition evaluation_input :: "string \<Rightarrow> string \<Rightarrow> string \<Rightarrow> pyval" where
  "evaluation_input query_text context_text response_text =
     PyDict
       [(''query'', PyStr query_text),
        (''context'', PyStr context_text),
        (''response'', PyStr response_text)]"

text \<open>
  The two dictionaries that \<^verbatim>\<open>evaluate_article\<close> builds from the environment, and the
  constructor calls of \<^verbatim>\<open>ArticleEvaluator.__init__\<close> on them, in the order in which
  they are made. \<open>first_raise\<close> is the exception of the first call that raises.
\<close>

definition model_configuration :: "string \<Rightarrow> string \<Rightarrow> string option \<Rightarrow> pyval" where
  "model_configuration azure_deployment api_version openai_name =
     PyDict
       [(''azure_deployment'', PyStr azure_deployment),
        (''api_version'', PyStr api_version),
        (''azure_endpoint'', PyStr (''https://'' @ format_field openai_name
            @ ''.cognitiveservices.azure.com/''))]"

definition azure_ai_project :: "string \<Rightarrow> string \<Rightarrow> string \<Rightarrow> pyval" where
  "azure_ai_project subscription_id resource_group_name project_name =
     PyDict
       [(''subscription_id'', PyStr subscription_id),
        (''resource_group_name'', PyStr resource_group_name),
        (''project_name'', PyStr project_name)]"

definition article_constructor_calls ::
  "pyval \<Rightarrow> pyval \<Rightarrow> (vendor_class \<times> (string \<times> object) list) list" where
  "article_constructor_calls model_config project_scope =
     [(RelevanceEvaluator, [(''model_config'', Value model_config)]),
      (FluencyEvaluator, [(''model_config'', Value model_config)]),
      (CoherenceEvaluator, [(''model_config'', Value model_config)]),
      (GroundednessEvaluator, [(''model_config'', Value model_config)]),
      (DefaultAzureCredential, []),
      (ViolenceEvaluator,
         [(''azure_ai_project'', Value project_scope),
          (''credential'', Instance DefaultAzureCredential [])]),
      (DefaultAzureCredential, []),
      (HateUnfairnessEvaluator,
         [(''azure_ai_project'', Value project_scope),
          (''credential'', Instance DefaultAzureCredential [])]),
      (DefaultAzureCredential, []),
      (SelfHarmEvaluator,
         [(''azure_ai_project'', Value project_scope),
          (''credential'', Instance DefaultAzureCredential [])]),
      (DefaultAzureCredential, []),
      (SexualEvaluator,
         [(''azure_ai_project'', Value project_scope),
          (''credential'', Instance DefaultAzureCredential [])])]"

fun first_raise :: "sdk \<Rightarrow> (vendor_class \<times> (string \<times> object) list) list \<Rightarrow> string option" where
  "first_raise sdk [] = None"
| "first_raise sdk ((cls, args) # calls) =
     (case sdk cls args of Some msg \<Rightarrow> Some msg | None \<Rightarrow> first_raise sdk calls)"

text \<open>
  The data-model invariant of an evaluation-result record: \<^verbatim>\<open>metrics\<close> is a mapping
  from names to numbers, and \<^verbatim>\<open>rows\<close> is a sequence of such mappings. A mapping has
  no key twice.
\<close>

fun is_number :: "pyval \<Rightarrow> bool" where
  "is_number (PyInt i) = True"
| "is_number _ = False"

fun is_metric_mapping :: "pyval \<Rightarrow> bool" where
  "is_metric_mapping (PyDict kvs) =
     (distinct (map fst kvs) \<and> list_all (\<lambda>kv. is_number (snd kv)) kvs)"
| "is_metric_mapping _ = False"

definition result_invariant :: "pyval \<Rightarrow> bool" where
  "result_invariant r =
     ((case dict_get r ''metrics'' of
         Some m \<Rightarrow> is_metric_mapping m
       | None \<Rightarrow> False)
      \<and> (case dict_get r ''rows'' of
         Some (PyList rows) \<Rightarrow> list_all is_metric_mapping rows
       | _ \<Rightarrow> False))"

definition metric_names :: "pyval \<Rightarrow> string list" where
  "metric_names r = (case dict_get r ''metrics'' of Some m \<Rightarrow> dict_keys m | None \<Rightarrow> [])"

definition quality_metric_names :: "string list" where
  "quality_metric_names =
     [''relevance.gpt_relevance'',
      ''fluency.gpt_fluency'',
      ''coherence.gpt_coherence'',
      ''groundedness.gpt_groundedness'']"

definition defect_rate_names :: "string list" where
  "defect_rate_names =
     [''violence.violence_defect_rate'',
      ''self_harm.self_harm_defect_rate'',
      ''hate_unfairness.hate_unfairness_defect_rate'',
      ''sexual.sexual_defect_rate'']"

definition image_metric_names :: "string list" where
  "image_metric_names =
     [''violence.score'',
      ''self_harm.score'',
      ''hate_unfairness.score'',
      ''sexual.score'',
      ''protected_material.score'']"

text \<open>
  \<^verbatim>\<open>rows\<close> holds one row, the row has the quality metrics as its keys and none of
  the defect rates, and \<^verbatim>\<open>metrics\<close> has every defect rate.
\<close>

definition one_quality_row :: "pyval \<Rightarrow> bool" where
  "one_quality_row r =
     ((case dict_get r ''rows'' of
         Some (PyList [row]) \<Rightarrow>
           dict_keys row = quality_metric_names
           \<and> list_all (\<lambda>k. k \<notin> set (dict_keys row)) defect_rate_names
       | _ \<Rightarrow> False)
      \<and> list_all (\<lambda>k. k \<in> set (metric_names r)) defect_rate_names)"

subsection \<open>Example states\<close>

definition root_context :: Context where
  "root_context = \<lparr>ctx_span = None\<rparr>"

text \<open>A process with no environment variable set, and nothing traced or printed.\<close>

definition no_environment :: world where
  "no_environment =
     \<lparr>environ = Map.empty, current_context = root_context, open_spans = [],
      finished_spans = [], printed = [], constructed = []\<rparr>"

text \<open>
  The same process with the five required variables set; \<^verbatim>\<open>AZURE_OPENAI_NAME\<close> is
  not set.
\<close>

definition lab_environment :: world where
  "lab_environment = no_environment
     \<lparr>environ := map_of
        [(''AZURE_OPENAI_4_EVAL_DEPLOYMENT_NAME'', ''gpt-4''),
         (''AZURE_OPENAI_API_VERSION'', ''2023-07-01-preview''),
         (''AZURE_SUBSCRIPTION_ID'', ''sub''),
         (''AZURE_RESOURCE_GROUP'', ''rg''),
         (''AZURE_AI_PROJECT_NAME'', ''project'')]\<rparr>"

text \<open>A vendor SDK all of whose constructors return.\<close>

definition working_sdk :: sdk where
  "working_sdk cls args = None"


subsection \<open>Predicates of the proofs\<close>

text \<open>
  \<open>ensures m w R\<close>: run from \<open>w\<close>, the statement \<open>m\<close> ends with an outcome and a state
  that satisfy \<open>R\<close>. \<open>agree m m'\<close>: run from states with the same environment, \<open>m\<close> and
  \<open>m'\<close> have the same outcome and leave states with the same environment.
\<close>

definition ensures ::
  "'a action \<Rightarrow> world \<Rightarrow> ((py_error + 'a) \<Rightarrow> world \<Rightarrow> bool) \<Rightarrow> bool" where
  "ensures m w R = R (fst (m w)) (snd (m w))"

definition agree :: "'a action \<Rightarrow> 'a action \<Rightarrow> bool" where
  "agree m m' =
     (\<forall>w w'. environ w = environ w' \<longrightarrow>
        fst (m w) = fst (m' w') \<and> environ (snd (m w)) = environ (snd (m' w')))"

section \<open>Rules for statements\<close>

lemma and_then_assoc:
  "and_then (and_then m f) g = and_then m (\<lambda>x. and_then (f x) g)"
  by (rule ext) (simp add: and_then_def split: prod.splits sum.splits)

lemma ensures_assoc:
  assumes "ensures (and_then m (\<lambda>x. and_then (f x) g)) w R"
  shows "ensures (and_then (and_then m f) g) w R"
  using assms by (simp add: and_then_assoc)

lemma ensures_returns: "R (Inr x) w \<Longrightarrow> ensures (returns x) w R"
  by (simp add: ensures_def returns_def)

lemma ensures_getitem_then:
  assumes "environ w k = None \<Longrightarrow> R (Inl (KeyError k)) w"
    and "\<And>v. environ w k = Some v \<Longrightarrow> ensures (f v) w R"
  shows "ensures (and_then (environ_getitem k) f) w R"
  using assms by (cases "environ w k") (simp_all add: ensures_def and_then_def environ_getitem_def)

lemma ensures_getenv_then:
  assumes "ensures (f (environ w k)) w R"
  shows "ensures (and_then (getenv k) f) w R"
  using assms by (simp add: ensures_def and_then_def getenv_def)

lemma ensures_construct_then:
  assumes "\<And>msg. sdk cls args = Some msg \<Longrightarrow> R (Inl (VendorError msg)) w"
    and "sdk cls args = None \<Longrightarrow>
           ensures (f (Instance cls args)) (w\<lparr>constructed := constructed w @ [cls]\<rparr>) R"
  shows "ensures (and_then (construct sdk cls args) f) w R"
  using assms by (cases "sdk cls args") (simp_all add: ensures_def and_then_def construct_def)

lemma ensures_set_attribute_then:
  assumes "open_spans w = s # ss"
    and "ensures (f ())
      (w\<lparr>open_spans := s\<lparr>span_attributes := setitem k v (span_attributes s)\<rparr> # ss\<rparr>) R"
  shows "ensures (and_then (set_attribute k v) f) w R"
  using assms by (simp add: ensures_def and_then_def set_attribute_def)

lemma ensures_print_then:
  assumes "ensures (f ()) (w\<lparr>printed := printed w @ [args]\<rparr>) R"
  shows "ensures (and_then (py_print args) f) w R"
  using assms by (simp add: ensures_def and_then_def py_print_def)

lemma ensures_span:
  assumes "ensures body
     (w\<lparr>current_context := set_span_in_context
            (SpanRef (length (finished_spans w) + length (open_spans w))) w,
        open_spans := start_span name ctx # open_spans w\<rparr>)
     (\<lambda>r w2. R r (end_span (w2\<lparr>current_context := current_context w\<rparr>)))"
  shows "ensures (start_as_current_span name ctx body) w R"
  using assms by (simp add: ensures_def start_as_current_span_def Let_def case_prod_beta)

lemma ensures_returns_then:
  assumes "ensures (f x) w R"
  shows "ensures (and_then (returns x) f) w R"
  using assms by (simp add: ensures_def and_then_def returns_def)

lemmas ensures_steps =
  ensures_assoc ensures_returns_then ensures_span ensures_getitem_then ensures_getenv_then
  ensures_construct_then ensures_set_attribute_then ensures_print_then ensures_returns

lemma agree_and_then:
  assumes "agree m m'" and "\<And>x. agree (f x) (f' x)"
  shows "agree (and_then m f) (and_then m' f')"
  unfolding agree_def
proof (intro allI impI)
  fix w w' :: world
  assume e: "environ w = environ w'"
  obtain r w1 where m: "m w = (r, w1)"
    by (cases "m w")
  obtain r' w1' where m': "m' w' = (r', w1')"
    by (cases "m' w'")
  from assms(1) e
  have "fst (m w) = fst (m' w') \<and> environ (snd (m w)) = environ (snd (m' w'))"
    unfolding agree_def by blast
  with m m' have r: "r' = r" and e1: "environ w1 = environ w1'"
    by simp_all
  show "fst (and_then m f w) = fst (and_then m' f' w') \<and>
        environ (snd (and_then m f w)) = environ (snd (and_then m' f' w'))"
  proof (cases r)
    case (Inl err)
    with m m' r e1 show ?thesis
      by (simp add: and_then_def)
  next
    case (Inr x)
    from assms(2) [of x] e1
    have "fst (f x w1) = fst (f' x w1') \<and> environ (snd (f x w1)) = environ (snd (f' x w1'))"
      by (simp add: agree_def)
    with Inr m m' r show ?thesis
      by (simp add: and_then_def)
  qed
qed

lemma agree_returns: "agree (returns x) (returns x)"
  by (simp add: agree_def returns_def)

lemma agree_environ_getitem: "agree (environ_getitem k) (environ_getitem k)"
  by (simp add: agree_def environ_getitem_def split: option.splits)

lemma agree_getenv: "agree (getenv k) (getenv k)"
  by (simp add: agree_def getenv_def)

lemma agree_construct: "agree (construct sdk cls args) (construct sdk cls args)"
  by (simp add: agree_def construct_def split: option.splits)

lemma agree_set_attribute: "agree (set_attribute k v) (set_attribute k v')"
  by (simp add: agree_def set_attribute_def split: list.splits)

lemma agree_py_print: "agree (py_print args) (py_print args')"
  by (simp add: agree_def py_print_def)

lemma environ_end_span: "environ (end_span w) = environ w"
  by (simp add: end_span_def split: list.splits)

lemma agree_start_as_current_span:
  assumes "agree body body'"
  shows "agree (start_as_current_span name ctx body) (start_as_current_span name' ctx' body')"
  unfolding agree_def
proof (intro allI impI)
  fix w w' :: world
  assume e: "environ w = environ w'"
  define w1 where "w1 = w\<lparr>current_context := set_span_in_context
      (SpanRef (length (finished_spans w) + length (open_spans w))) w,
    open_spans := start_span name ctx # open_spans w\<rparr>"
  define w1' where "w1' = w'\<lparr>current_context := set_span_in_context
      (SpanRef (length (finished_spans w') + length (open_spans w'))) w',
    open_spans := start_span name' ctx' # open_spans w'\<rparr>"
  from e have "environ w1 = environ w1'"
    by (simp add: w1_def w1'_def)
  with assms
  have "fst (body w1) = fst (body' w1') \<and> environ (snd (body w1)) = environ (snd (body' w1'))"
    by (simp add: agree_def)
  then show "fst (start_as_current_span name ctx body w) =
        fst (start_as_current_span name' ctx' body' w') \<and>
      environ (snd (start_as_current_span name ctx body w)) =
        environ (snd (start_as_current_span name' ctx' body' w'))"
    by (simp add: start_as_current_span_def Let_def case_prod_beta environ_end_span
        w1_def w1'_def)
qed

lemmas agree_rules =
  agree_start_as_current_span agree_and_then agree_returns agree_environ_getitem
  agree_getenv agree_construct agree_set_attribute agree_py_print

lemma ensures_dumps_then:
  assumes "\<And>e. dumps v = Inl e \<Longrightarrow> R (Inl (JSONError e)) w"
    and "\<And>text. dumps v = Inr text \<Longrightarrow> ensures (f text) w R"
  shows "ensures (and_then (json_dumps dumps v) f) w R"
  using assms by (cases "dumps v") (simp_all add: ensures_def and_then_def json_dumps_def)

lemma agree_json_dumps: "agree (json_dumps dumps v) (json_dumps dumps v)"
  by (simp add: agree_def json_dumps_def split: sum.splits)

lemmas ensures_all = ensures_dumps_then ensures_steps

lemmas agree_all = agree_json_dumps agree_rules

section \<open>Properties of the public functions\<close>

lemma agree_evaluate_article:
  "agree (evaluate_article dumps sdk data ctx) (evaluate_article dumps sdk data ctx')"
  unfolding evaluate_article_def Let_def ArticleEvaluator_init_def
  by (intro agree_all)

lemma evaluate_article_post:
  "ensures (evaluate_article dumps sdk data ctx) w (\<lambda>r w'.
      environ w' = environ w \<and> current_context w' = current_context w
      \<and> open_spans w' = open_spans w
      \<and> (case r of
        Inl (JSONError e) \<Rightarrow>
          printed w' = printed w
          \<and> ((dumps data = Inl e
               \<and> finished_spans w' = finished_spans w @ [run_evaluators_span ctx []])
             \<or> (\<exists>text. dumps data = Inr text \<and> first_unset w = None
                   \<and> dumps article_result = Inl e
                   \<and> finished_spans w' = finished_spans w @
                        [run_evaluators_span ctx [(''inputs'', text)]]))
      | Inl (KeyError k) \<Rightarrow>
          first_unset w = Some k \<and> printed w' = printed w
          \<and> (\<exists>text. dumps data = Inr text
                \<and> finished_spans w' = finished_spans w @
                     [run_evaluators_span ctx [(''inputs'', text)]])
      | Inl (VendorError msg) \<Rightarrow>
          first_unset w = None \<and> printed w' = printed w
          \<and> (\<exists>text. dumps data = Inr text
                \<and> finished_spans w' = finished_spans w @
                     [run_evaluators_span ctx [(''inputs'', text)]])
      | Inr result \<Rightarrow>
          result = article_result \<and> first_unset w = None
          \<and> (\<exists>text out. dumps data = Inr text \<and> dumps article_result = Inr out
                \<and> finished_spans w' = finished_spans w @
                     [run_evaluators_span ctx [(''inputs'', text), (''output'', out)]]
                \<and> printed w' = printed w @ [[PyStr ''results: '', PyStr out]])))"
  unfolding evaluate_article_def Let_def ArticleEvaluator_init_def
  by ((rule ensures_all;
     (simp add: end_span_def start_span_def run_evaluators_span_def
         first_unset_def required_variables_def article_result_def)?)+)

lemma first_raise_None:
  assumes "\<forall>cls args. sdk cls args = None"
  shows "first_raise sdk calls = None"
  using assms by (induction calls) auto

lemma evaluate_article_vendor:
  assumes "environ w ''AZURE_OPENAI_4_EVAL_DEPLOYMENT_NAME'' = Some azure_deployment"
    and "environ w ''AZURE_OPENAI_API_VERSION'' = Some api_version"
    and "environ w ''AZURE_SUBSCRIPTION_ID'' = Some subscription_id"
    and "environ w ''AZURE_RESOURCE_GROUP'' = Some resource_group_name"
    and "environ w ''AZURE_AI_PROJECT_NAME'' = Some project_name"
    and "dumps data = Inr text"
    and "dumps article_result = Inr out"
  shows "ensures (evaluate_article dumps sdk data ctx) w (\<lambda>r w'.
     r = (case first_raise sdk (article_constructor_calls
               (model_configuration azure_deployment api_version
                  (environ w ''AZURE_OPENAI_NAME''))
               (azure_ai_project subscription_id resource_group_name project_name)) of
            None \<Rightarrow> Inr article_result
          | Some msg \<Rightarrow> Inl (VendorError msg)))"
  unfolding evaluate_article_def Let_def ArticleEvaluator_init_def
  by ((rule ensures_all;
     (simp add: assms assms(7) [unfolded article_result_def] article_result_def
        article_constructor_calls_def model_configuration_def azure_ai_project_def)?)+)

lemma evaluate_article_frame:
  "environ (snd (evaluate_article dumps sdk data ctx w)) = environ w"
  "current_context (snd (evaluate_article dumps sdk data ctx w)) = current_context w"
  "open_spans (snd (evaluate_article dumps sdk data ctx w)) = open_spans w"
  using evaluate_article_post [of dumps sdk data ctx w] by (simp_all add: ensures_def)

lemma evaluate_article_Inr:
  assumes "fst (evaluate_article dumps sdk data ctx w) = Inr result"
  shows "result = article_result"
    and "first_unset w = None"
    and "\<exists>text out. dumps data = Inr text \<and> dumps article_result = Inr out
          \<and> finished_spans (snd (evaluate_article dumps sdk data ctx w)) = finished_spans w @
               [run_evaluators_span ctx [(''inputs'', text), (''output'', out)]]
          \<and> printed (snd (evaluate_article dumps sdk data ctx w)) = printed w @
               [[PyStr ''results: '', PyStr out]]"
  using evaluate_article_post [of dumps sdk data ctx w] assms by (simp_all add: ensures_def)

lemma evaluate_article_unserialisable:
  assumes "dumps data = Inl e"
  shows "fst (evaluate_article dumps sdk data ctx w) = Inl (JSONError e)"
    and "finished_spans (snd (evaluate_article dumps sdk data ctx w)) =
           finished_spans w @ [run_evaluators_span ctx []]"
    and "printed (snd (evaluate_article dumps sdk data ctx w)) = printed w"
proof -
  have "fst (evaluate_article dumps sdk data ctx w) = Inl (JSONError e)
    \<and> finished_spans (snd (evaluate_article dumps sdk data ctx w)) =
           finished_spans w @ [run_evaluators_span ctx []]
    \<and> printed (snd (evaluate_article dumps sdk data ctx w)) = printed w"
  proof (cases "fst (evaluate_article dumps sdk data ctx w)")
    case (Inr result)
    with evaluate_article_Inr(3) [OF Inr] assms show ?thesis by auto
  next
    case (Inl err)
    with evaluate_article_post [of dumps sdk data ctx w] assms show ?thesis
      by (cases err) (auto simp add: ensures_def)
  qed
  then show "fst (evaluate_article dumps sdk data ctx w) = Inl (JSONError e)"
    and "finished_spans (snd (evaluate_article dumps sdk data ctx w)) =
           finished_spans w @ [run_evaluators_span ctx []]"
    and "printed (snd (evaluate_article dumps sdk data ctx w)) = printed w"
    by simp_all
qed

lemma evaluate_article_Inl:
  assumes "fst (evaluate_article dumps sdk data ctx w) = Inl err"
    and "dumps data = Inr text"
  shows "finished_spans (snd (evaluate_article dumps sdk data ctx w)) = finished_spans w @
           [run_evaluators_span ctx [(''inputs'', text)]]"
    and "printed (snd (evaluate_article dumps sdk data ctx w)) = printed w"
  using evaluate_article_post [of dumps sdk data ctx w] assms
  by (cases err; auto simp add: ensures_def)+

lemma KeyError_first_unset:
  assumes "fst (evaluate_article dumps sdk data ctx w) = Inl (KeyError k)"
  shows "first_unset w = Some k"
  using evaluate_article_post [of dumps sdk data ctx w] assms by (simp add: ensures_def)

lemma evaluate_article_KeyError:
  assumes "first_unset w = Some k" and "dumps data = Inr text"
  shows "fst (evaluate_article dumps sdk data ctx w) = Inl (KeyError k)"
proof (cases "fst (evaluate_article dumps sdk data ctx w)")
  case (Inl err)
  with evaluate_article_post [of dumps sdk data ctx w] assms show ?thesis
    by (cases err) (auto simp add: ensures_def)
next
  case (Inr result)
  with evaluate_article_Inr(2) [OF Inr] assms show ?thesis
    by simp
qed

lemma evaluate_article_unset_raises:
  assumes "first_unset w = Some k"
  shows "\<exists>err. fst (evaluate_article dumps sdk data ctx w) = Inl err"
proof (cases "fst (evaluate_article dumps sdk data ctx w)")
  case (Inl err)
  then show ?thesis by blast
next
  case (Inr result)
  with evaluate_article_Inr(2) [OF Inr] assms show ?thesis
    by simp
qed

lemma evaluate_article_literal_or_raises:
  "fst (evaluate_article dumps sdk data ctx w) = Inr article_result
   \<or> (\<exists>err. fst (evaluate_article dumps sdk data ctx w) = Inl err)"
proof (cases "fst (evaluate_article dumps sdk data ctx w)")
  case (Inl err)
  then show ?thesis by simp
next
  case (Inr result)
  with evaluate_article_Inr(1) [OF Inr] show ?thesis by simp
qed

lemma evaluate_article_span_inputs:
  assumes "dumps data = Inr text"
  shows "\<exists>attrs. finished_spans (snd (evaluate_article dumps sdk data ctx w)) =
     finished_spans w @ [run_evaluators_span ctx ((''inputs'', text) # attrs)]"
proof (cases "fst (evaluate_article dumps sdk data ctx w)")
  case (Inl err)
  from evaluate_article_Inl(1) [OF Inl assms] show ?thesis by blast
next
  case (Inr result)
  from evaluate_article_Inr(3) [OF Inr] assms show ?thesis by auto
qed

lemma evaluate_article_span:
  "\<exists>attrs. finished_spans (snd (evaluate_article dumps sdk data ctx w)) =
     finished_spans w @ [run_evaluators_span ctx attrs]"
proof (cases "dumps data")
  case (Inl e)
  from evaluate_article_unserialisable(2) [where dumps = dumps and data = data, OF Inl]
  show ?thesis by blast
next
  case (Inr t)
  from evaluate_article_span_inputs [where dumps = dumps and data = data, OF Inr]
  show ?thesis by blast
qed

lemma first_unset_None_iff:
  "first_unset w = None \<longleftrightarrow> list_all (\<lambda>k. environ w k \<noteq> None) required_variables"
  by (auto simp add: first_unset_def find_None_iff list_all_iff)

lemma first_unset_Some:
  assumes "first_unset w = Some k"
  shows "k \<in> set required_variables" and "environ w k = None"
  using assms by (auto simp add: first_unset_def find_Some_iff)

lemma first_unset_exists:
  assumes "k \<in> set required_variables" and "environ w k = None"
  shows "\<exists>k'. first_unset w = Some k'"
proof (cases "first_unset w")
  case None
  with assms show ?thesis
    by (auto simp add: first_unset_def find_None_iff)
next
  case (Some k')
  then show ?thesis by blast
qed

lemma evaluate_article_returns:
  assumes "first_unset w = None"
    and "dumps data = Inr text"
    and "dumps article_result = Inr out"
    and "\<forall>cls args. sdk cls args = None"
  shows "fst (evaluate_article dumps sdk data ctx w) = Inr article_result"
proof -
  from assms(1) obtain v1 v2 v3 v4 v5
    where "environ w ''AZURE_OPENAI_4_EVAL_DEPLOYMENT_NAME'' = Some v1"
      and "environ w ''AZURE_OPENAI_API_VERSION'' = Some v2"
      and "environ w ''AZURE_SUBSCRIPTION_ID'' = Some v3"
      and "environ w ''AZURE_RESOURCE_GROUP'' = Some v4"
      and "environ w ''AZURE_AI_PROJECT_NAME'' = Some v5"
    by (auto simp add: first_unset_None_iff required_variables_def)
  from evaluate_article_vendor [OF this assms(2,3), of sdk ctx] first_raise_None [OF assms(4)]
  show ?thesis
    by (simp add: ensures_def)
qed

lemma environ_agree:
  assumes "environ w = environ w'"
  shows "fst (evaluate_article dumps sdk data ctx w) =
    fst (evaluate_article dumps sdk data ctx' w')"
  using agree_evaluate_article [of dumps sdk data ctx ctx'] assms
  unfolding agree_def by blast

lemma evaluate_article_after:
  assumes "environ w' = environ w"
  shows "fst (evaluate_article dumps sdk data ctx w') =
    fst (evaluate_article dumps sdk data ctx w)"
  using assms by (rule environ_agree)

lemma evaluate_article_same_effects:
  assumes "environ w1 = environ w2"
  shows "\<exists>s p.
      finished_spans (snd (evaluate_article dumps sdk data ctx w1)) = finished_spans w1 @ [s]
      \<and> finished_spans (snd (evaluate_article dumps sdk data ctx w2)) = finished_spans w2 @ [s]
      \<and> printed (snd (evaluate_article dumps sdk data ctx w1)) = printed w1 @ p
      \<and> printed (snd (evaluate_article dumps sdk data ctx w2)) = printed w2 @ p"
proof -
  from assms
  have eq: "fst (evaluate_article dumps sdk data ctx w2) =
      fst (evaluate_article dumps sdk data ctx w1)"
    by (rule environ_agree [symmetric])
  show ?thesis
  proof (cases "dumps data")
    case (Inl e)
    from evaluate_article_unserialisable(2,3)
        [where dumps = dumps and data = data and w = w1, OF Inl]
      evaluate_article_unserialisable(2,3)
        [where dumps = dumps and data = data and w = w2, OF Inl]
    show ?thesis by simp
  next
    case t: (Inr t)
    show ?thesis
    proof (cases "fst (evaluate_article dumps sdk data ctx w1)")
      case (Inl err)
      with eq have 2: "fst (evaluate_article dumps sdk data ctx w2) = Inl err"
        by simp
      from evaluate_article_Inl [OF Inl t] evaluate_article_Inl [OF 2 t] show ?thesis
        by simp
    next
      case (Inr result)
      with eq have 2: "fst (evaluate_article dumps sdk data ctx w2) = Inr result"
        by simp
      from evaluate_article_Inr(3) [OF Inr] evaluate_article_Inr(3) [OF 2] show ?thesis
        by auto
    qed
  qed
qed

lemma evaluate_image_eq:
  "evaluate_image messages w =
     (Inr image_result,
      w\<lparr>printed := printed w @ [[PyStr ''Image evaluation (lab mode):'', image_result]]\<rparr>)"
  by (simp add: evaluate_image_def Let_def and_then_def py_print_def returns_def image_result_def)

lemma background_passes:
  assumes "dumps (query_structure rc pc ac) = Inr query_text"
    and "dumps (context_structure res prods) = Inr context_text"
    and "dumps art = Inr response_text"
  shows "evaluate_article_in_background dumps sdk rc pc ac res prods art w =
     (case evaluate_article dumps sdk (evaluation_input query_text context_text response_text)
             (set_span_in_context (get_current_span w) w) w of
        (Inl err, w') \<Rightarrow> (Inl err, w')
      | (Inr result, w') \<Rightarrow> (Inr PyNone, w'))"
  using assms
  by (simp add: evaluate_article_in_background_def Let_def and_then_def returns_def
      json_dumps_def evaluation_input_def query_structure_def context_structure_def
      split: prod.splits sum.splits)

lemma background_raises_first:
  assumes "dumps (query_structure rc pc ac) = Inl e"
  shows "evaluate_article_in_background dumps sdk rc pc ac res prods art w =
    (Inl (JSONError e), w)"
  using assms
  by (simp add: evaluate_article_in_background_def Let_def and_then_def json_dumps_def
      query_structure_def)

lemma background_raises_second:
  assumes "dumps (query_structure rc pc ac) = Inr query_text"
    and "dumps (context_structure res prods) = Inl e"
  shows "evaluate_article_in_background dumps sdk rc pc ac res prods art w =
    (Inl (JSONError e), w)"
  using assms
  by (simp add: evaluate_article_in_background_def Let_def and_then_def json_dumps_def
      query_structure_def context_structure_def)

lemma background_raises_third:
  assumes "dumps (query_structure rc pc ac) = Inr query_text"
    and "dumps (context_structure res prods) = Inr context_text"
    and "dumps art = Inl e"
  shows "evaluate_article_in_background dumps sdk rc pc ac res prods art w =
    (Inl (JSONError e), w)"
  using assms
  by (simp add: evaluate_article_in_background_def Let_def and_then_def json_dumps_def
      query_structure_def context_structure_def)

lemma background_fst:
  assumes "dumps (query_structure rc pc ac) = Inr query_text"
    and "dumps (context_structure res prods) = Inr context_text"
    and "dumps art = Inr response_text"
  shows "fst (evaluate_article_in_background dumps sdk rc pc ac res prods art w) =
     (case fst (evaluate_article dumps sdk
                  (evaluation_input query_text context_text response_text)
                  (set_span_in_context (get_current_span w) w) w) of
        Inl err \<Rightarrow> Inl err
      | Inr result \<Rightarrow> Inr PyNone)"
  by (simp add: background_passes [OF assms] split: prod.splits sum.splits)

lemma background_snd:
  assumes "dumps (query_structure rc pc ac) = Inr query_text"
    and "dumps (context_structure res prods) = Inr context_text"
    and "dumps art = Inr response_text"
  shows "snd (evaluate_article_in_background dumps sdk rc pc ac res prods art w) =
     snd (evaluate_article dumps sdk (evaluation_input query_text context_text response_text)
            (set_span_in_context (get_current_span w) w) w)"
  by (simp add: background_passes [OF assms] split: prod.splits sum.splits)

subsection \<open>The examples\<close>

lemma example_dumps_PyStr: "example_dumps (PyStr s) = Inr (json_text (PyStr s))"
  by (simp add: example_dumps_def)

lemma example_dumps_PyObject: "example_dumps (PyObject t) = Inl TypeError"
  by (simp add: example_dumps_def)

lemma example_dumps_article_result:
  "example_dumps article_result = Inr (json_text article_result)"
  by (simp add: example_dumps_def article_result_def)

lemma first_unset_no_environment:
  "first_unset no_environment = Some ''AZURE_OPENAI_4_EVAL_DEPLOYMENT_NAME''"
  by (simp add: first_unset_def no_environment_def required_variables_def)

lemma first_unset_lab_environment: "first_unset lab_environment = None"
  by (simp add: first_unset_def lab_environment_def no_environment_def required_variables_def)

lemma lab_environment_configured:
  "list_all (\<lambda>k. environ lab_environment k \<noteq> None) required_variables"
  using first_unset_lab_environment by (simp add: first_unset_None_iff)

lemma working_sdk_returns: "\<forall>cls args. working_sdk cls args = None"
  by (simp add: working_sdk_def)

lemma evaluate_article_lab_environment:
  "fst (evaluate_article example_dumps working_sdk (PyStr s) ctx lab_environment) =
     Inr article_result"
  by (rule evaluate_article_returns
        [where dumps = example_dumps and data = "PyStr s",
          OF first_unset_lab_environment example_dumps_PyStr
          example_dumps_article_result working_sdk_returns])

lemma evaluate_article_no_environment:
  "fst (evaluate_article example_dumps sdk (PyStr s) ctx no_environment) =
     Inl (KeyError ''AZURE_OPENAI_4_EVAL_DEPLOYMENT_NAME'')"
  by (rule evaluate_article_KeyError
        [where dumps = example_dumps and data = "PyStr s",
          OF first_unset_no_environment example_dumps_PyStr])


lemma ArticleEvaluator_call_eq: "ArticleEvaluator_call self data_path kwargs = article_result"
  by (simp add: ArticleEvaluator_call_def article_result_def)

lemma ImageEvaluator_call_eq: "ImageEvaluator_call self messages kwargs = image_result"
  by (simp add: ImageEvaluator_call_def image_result_def)

lemma result_invariant_article: "result_invariant article_result"
  by (simp add: result_invariant_def article_result_def)

lemma result_invariant_image: "result_invariant image_result"
  by (simp add: result_invariant_def image_result_def)

lemma metric_names_article:
  "metric_names article_result = quality_metric_names @ defect_rate_names"
  by (simp add: metric_names_def article_result_def quality_metric_names_def
      defect_rate_names_def)

lemma metric_names_image: "metric_names image_result = image_metric_names"
  by (simp add: metric_names_def image_result_def image_metric_names_def)

lemma one_quality_row_article: "one_quality_row article_result"
  by (simp add: one_quality_row_def metric_names_def article_result_def
      quality_metric_names_def defect_rate_names_def)

section \<open>The claims\<close>

text \<open>
  C1, as amended. \<^verbatim>\<open>evaluate_image\<close> returns the image result literal for every
  argument and every state. \<^verbatim>\<open>evaluate_article\<close> does not return for every input:
  when \<^verbatim>\<open>json.dumps(data)\<close> raises, it raises that exception, and when
  \<^verbatim>\<open>json.dumps(data)\<close> returns and a required environment variable is not set, it
  raises \<^verbatim>\<open>KeyError\<close> for the first one that is not set. Whenever it returns, it
  returns the article result literal, whatever its arguments. It does return when
  \<^verbatim>\<open>json.dumps\<close> returns on \<^verbatim>\<open>data\<close> and on the result literal, the five required
  variables are set and the vendor constructors return.
\<close>

theorem fixed_result_literals:
  "fst (evaluate_image messages w) = Inr image_result
   \<and> (fst (evaluate_article dumps sdk data trace_context w) = Inr article_result
      \<or> (\<exists>err. fst (evaluate_article dumps sdk data trace_context w) = Inl err))
   \<and> (\<forall>e. dumps data = Inl e \<longrightarrow>
        fst (evaluate_article dumps sdk data trace_context w) = Inl (JSONError e))
   \<and> (\<forall>inputs k. dumps data = Inr inputs \<and> first_unset w = Some k \<longrightarrow>
        k \<in> set required_variables \<and> environ w k = None
        \<and> fst (evaluate_article dumps sdk data trace_context w) = Inl (KeyError k))
   \<and> (\<forall>inputs output.
        dumps data = Inr inputs \<and> dumps article_result = Inr output
        \<and> list_all (\<lambda>k. environ w k \<noteq> None) required_variables
        \<and> (\<forall>cls args. sdk cls args = None)
      \<longrightarrow> fst (evaluate_article dumps sdk data trace_context w) = Inr article_result)"
proof (intro conjI allI impI)
  show "fst (evaluate_image messages w) = Inr image_result"
    by (simp add: evaluate_image_eq)
  show "fst (evaluate_article dumps sdk data trace_context w) = Inr article_result
      \<or> (\<exists>err. fst (evaluate_article dumps sdk data trace_context w) = Inl err)"
    by (rule evaluate_article_literal_or_raises)
next
  fix e
  assume "dumps data = Inl e"
  then show "fst (evaluate_article dumps sdk data trace_context w) = Inl (JSONError e)"
    by (rule evaluate_article_unserialisable)
next
  fix inputs k
  assume a: "dumps data = Inr inputs \<and> first_unset w = Some k"
  then have u: "first_unset w = Some k" and d: "dumps data = Inr inputs"
    by simp_all
  from u show "k \<in> set required_variables" and "environ w k = None"
    by (rule first_unset_Some)+
  from u d show "fst (evaluate_article dumps sdk data trace_context w) = Inl (KeyError k)"
    by (rule evaluate_article_KeyError)
next
  fix inputs out
  assume "dumps data = Inr inputs \<and> dumps article_result = Inr out
        \<and> list_all (\<lambda>k. environ w k \<noteq> None) required_variables
        \<and> (\<forall>cls args. sdk cls args = None)"
  then show "fst (evaluate_article dumps sdk data trace_context w) = Inr article_result"
    using evaluate_article_returns [where dumps = dumps and data = data]
    by (simp add: first_unset_None_iff)
qed

theorem fixed_result_literals_witness:
  "example_dumps (PyStr ''draft'') = Inr (json_text (PyStr ''draft''))
   \<and> example_dumps article_result = Inr (json_text article_result)
   \<and> list_all (\<lambda>k. environ lab_environment k \<noteq> None) required_variables
   \<and> (\<forall>cls args. working_sdk cls args = None)
   \<and> fst (evaluate_image (PyStr ''picture'') lab_environment) = Inr image_result
   \<and> fst (evaluate_article example_dumps working_sdk (PyStr ''draft'') root_context
        lab_environment) = Inr article_result
   \<and> example_dumps (PyObject ''set'') = Inl TypeError
   \<and> fst (evaluate_article example_dumps working_sdk (PyObject ''set'') root_context
        lab_environment) = Inl (JSONError TypeError)
   \<and> first_unset no_environment = Some ''AZURE_OPENAI_4_EVAL_DEPLOYMENT_NAME''
   \<and> fst (evaluate_article example_dumps working_sdk (PyStr ''draft'') root_context
        no_environment) = Inl (KeyError ''AZURE_OPENAI_4_EVAL_DEPLOYMENT_NAME'')"
proof -
  note d = example_dumps_PyStr [of "''draft''"]
  note a = example_dumps_article_result
  note c = lab_environment_configured
  note s = working_sdk_returns
  note o = example_dumps_PyObject [of "''set''"]
  note u = first_unset_no_environment
  from fixed_result_literals
    [of "PyStr ''picture''" lab_environment example_dumps working_sdk "PyStr ''draft''"
      root_context] d a c s
  have 1: "fst (evaluate_image (PyStr ''picture'') lab_environment) = Inr image_result"
    and 2: "fst (evaluate_article example_dumps working_sdk (PyStr ''draft'') root_context
        lab_environment) = Inr article_result"
    by blast+
  from fixed_result_literals
    [of "PyStr ''picture''" lab_environment example_dumps working_sdk "PyObject ''set''"
      root_context] o
  have 3: "fst (evaluate_article example_dumps working_sdk (PyObject ''set'') root_context
        lab_environment) = Inl (JSONError TypeError)"
    by blast
  from fixed_result_literals
    [of "PyStr ''picture''" no_environment example_dumps working_sdk "PyStr ''draft''"
      root_context] d u
  have 4: "fst (evaluate_article example_dumps working_sdk (PyStr ''draft'') root_context
        no_environment) = Inl (KeyError ''AZURE_OPENAI_4_EVAL_DEPLOYMENT_NAME'')"
    by blast
  from d a c s o u 1 2 3 4 show ?thesis by blast
qed

text \<open>
  C1 as stated fails: with no environment variable set, \<^verbatim>\<open>evaluate_article\<close> raises
  \<^verbatim>\<open>KeyError\<close> at its first subscript of \<^verbatim>\<open>os.environ\<close> and returns nothing.
\<close>

theorem evaluate_article_raises_unconfigured:
  "fst (evaluate_article example_dumps working_sdk (PyStr ''draft'') root_context
      no_environment) = Inl (KeyError ''AZURE_OPENAI_4_EVAL_DEPLOYMENT_NAME'')
   \<and> fst (evaluate_article example_dumps working_sdk (PyStr ''draft'') root_context
      no_environment) \<noteq> Inr article_result"
  by (simp add: evaluate_article_no_environment)




text \<open>
  C3, as amended. \<^verbatim>\<open>ArticleEvaluator.__call__\<close> returns the article result literal
  and \<^verbatim>\<open>ImageEvaluator.__call__\<close> and \<^verbatim>\<open>evaluate_image\<close> return the image result
  literal, whatever their arguments; \<^verbatim>\<open>evaluate_article\<close> raises or returns the article
  result literal. \<^verbatim>\<open>FriendlinessEvaluator.__call__\<close> ignores its argument and
  returns \<^verbatim>\<open>{"score": 5}\<close>. Only \<^verbatim>\<open>evaluate_article\<close> emits a trace span: one span
  named \<^verbatim>\<open>run_evaluators\<close>, which carries the attribute \<^verbatim>\<open>inputs\<close> when
  \<^verbatim>\<open>json.dumps(data)\<close> returns and no attribute when \<^verbatim>\<open>json.dumps(data)\<close> raises.
  \<^verbatim>\<open>evaluate_image\<close> starts and ends no span, and the call operators do not touch
  the state at all.
\<close>

theorem operation_contracts:
  "ArticleEvaluator_call article_evaluator data_path kwargs = article_result
   \<and> ImageEvaluator_call image_evaluator messages kwargs' = image_result
   \<and> FriendlinessEvaluator_call friendliness response = PyDict [(''score'', PyInt 5)]
   \<and> fst (evaluate_image messages w) = Inr image_result
   \<and> finished_spans (snd (evaluate_image messages w)) = finished_spans w
   \<and> open_spans (snd (evaluate_image messages w)) = open_spans w
   \<and> (fst (evaluate_article dumps sdk data trace_context w) = Inr article_result
      \<or> (\<exists>err. fst (evaluate_article dumps sdk data trace_context w) = Inl err))
   \<and> (\<exists>attrs. finished_spans (snd (evaluate_article dumps sdk data trace_context w)) =
        finished_spans w @ [run_evaluators_span trace_context attrs])
   \<and> (\<forall>inputs. dumps data = Inr inputs \<longrightarrow>
        (\<exists>attrs. finished_spans (snd (evaluate_article dumps sdk data trace_context w)) =
           finished_spans w @
             [run_evaluators_span trace_context ((''inputs'', inputs) # attrs)]))
   \<and> (\<forall>e. dumps data = Inl e \<longrightarrow>
        finished_spans (snd (evaluate_article dumps sdk data trace_context w)) =
          finished_spans w @ [run_evaluators_span trace_context []])
   \<and> open_spans (snd (evaluate_article dumps sdk data trace_context w)) = open_spans w"
proof (intro conjI allI impI)
  show "fst (evaluate_article dumps sdk data trace_context w) = Inr article_result
      \<or> (\<exists>err. fst (evaluate_article dumps sdk data trace_context w) = Inl err)"
    by (rule evaluate_article_literal_or_raises)
  show "\<exists>attrs. finished_spans (snd (evaluate_article dumps sdk data trace_context w)) =
        finished_spans w @ [run_evaluators_span trace_context attrs]"
    by (rule evaluate_article_span)
next
  fix inputs
  assume "dumps data = Inr inputs"
  then show "\<exists>attrs. finished_spans (snd (evaluate_article dumps sdk data trace_context w)) =
      finished_spans w @ [run_evaluators_span trace_context ((''inputs'', inputs) # attrs)]"
    by (rule evaluate_article_span_inputs)
next
  fix e
  assume "dumps data = Inl e"
  then show "finished_spans (snd (evaluate_article dumps sdk data trace_context w)) =
      finished_spans w @ [run_evaluators_span trace_context []]"
    by (rule evaluate_article_unserialisable)
qed (simp_all add: ArticleEvaluator_call_eq ImageEvaluator_call_eq FriendlinessEvaluator_call_def
    evaluate_image_eq evaluate_article_frame)

theorem operation_contracts_witness:
  "example_dumps (PyStr ''draft'') = Inr (json_text (PyStr ''draft''))
   \<and> (\<exists>attrs. finished_spans (snd (evaluate_article example_dumps working_sdk
         (PyStr ''draft'') root_context no_environment)) =
       [run_evaluators_span root_context ((''inputs'', json_text (PyStr ''draft'')) # attrs)])
   \<and> example_dumps (PyObject ''set'') = Inl TypeError
   \<and> finished_spans (snd (evaluate_article example_dumps working_sdk (PyObject ''set'')
         root_context no_environment)) = [run_evaluators_span root_context []]"
proof -
  note d = example_dumps_PyStr [of "''draft''"]
  note o = example_dumps_PyObject [of "''set''"]
  have n: "finished_spans no_environment = []"
    by (simp add: no_environment_def)
  from operation_contracts
    [where dumps = example_dumps and data = "PyStr ''draft''" and w = no_environment
      and sdk = working_sdk and trace_context = root_context] d n
  have 1: "\<exists>attrs. finished_spans (snd (evaluate_article example_dumps working_sdk
         (PyStr ''draft'') root_context no_environment)) =
       [run_evaluators_span root_context ((''inputs'', json_text (PyStr ''draft'')) # attrs)]"
    by simp
  from operation_contracts
    [where dumps = example_dumps and data = "PyObject ''set''" and w = no_environment
      and sdk = working_sdk and trace_context = root_context] o n
  have 2: "finished_spans (snd (evaluate_article example_dumps working_sdk (PyObject ''set'')
         root_context no_environment)) = [run_evaluators_span root_context []]"
    by simp
  from d o 1 2 show ?thesis by blast
qed

text \<open>
  C3 as stated fails: the result of \<^verbatim>\<open>FriendlinessEvaluator.__call__\<close> is neither of
  the two result literals, and \<^verbatim>\<open>evaluate_image\<close> leaves no span behind.
\<close>

theorem friendliness_call_is_neither_literal:
  "FriendlinessEvaluator_call FriendlinessEvaluator (PyStr ''Hello'') =
     PyDict [(''score'', PyInt 5)]
   \<and> FriendlinessEvaluator_call FriendlinessEvaluator (PyStr ''Hello'') \<noteq> article_result
   \<and> FriendlinessEvaluator_call FriendlinessEvaluator (PyStr ''Hello'') \<noteq> image_result
   \<and> finished_spans (snd (evaluate_image (PyStr ''picture'') no_environment)) = []
   \<and> open_spans (snd (evaluate_image (PyStr ''picture'') no_environment)) = []"
  by (simp add: FriendlinessEvaluator_call_def article_result_def image_result_def
      evaluate_image_eq no_environment_def)

text \<open>
  C4, as amended. No exception is caught. When one of the five required variables is
  not set, \<^verbatim>\<open>evaluate_article\<close> returns nothing: it raises the exception of
  \<^verbatim>\<open>json.dumps(data)\<close> when that call, the first of the body, raises, and otherwise
  \<^verbatim>\<open>KeyError\<close> for the first required variable that is not set.
  \<^verbatim>\<open>evaluate_article_in_background\<close> catches nothing either: when its three calls of
  \<^verbatim>\<open>json.dumps\<close> and the one on the record return, the same \<^verbatim>\<open>KeyError\<close> leaves it.
  \<^verbatim>\<open>AZURE_OPENAI_NAME\<close> is read with \<^verbatim>\<open>os.getenv\<close>: no \<^verbatim>\<open>KeyError\<close> ever names it,
  and with it unset \<^verbatim>\<open>evaluate_article\<close> still returns when \<^verbatim>\<open>json.dumps\<close> returns,
  the five are set and the vendor constructors return.
\<close>

theorem unset_variable_raises:
  "((\<exists>k \<in> set required_variables. environ w k = None) \<longrightarrow>
      (\<exists>err. fst (evaluate_article dumps sdk data trace_context w) = Inl err)
      \<and> (\<exists>k \<in> set required_variables. environ w k = None \<and> first_unset w = Some k))
   \<and> (\<forall>k inputs. first_unset w = Some k \<and> dumps data = Inr inputs \<longrightarrow>
        fst (evaluate_article dumps sdk data trace_context w) = Inl (KeyError k))
   \<and> (\<forall>e. dumps data = Inl e \<longrightarrow>
        fst (evaluate_article dumps sdk data trace_context w) = Inl (JSONError e))
   \<and> (\<forall>k query_text context_text response_text record_text.
        first_unset w = Some k
        \<and> dumps (query_structure research_context product_context assignment_context) =
            Inr query_text
        \<and> dumps (context_structure research products) = Inr context_text
        \<and> dumps article = Inr response_text
        \<and> dumps (evaluation_input query_text context_text response_text) = Inr record_text
      \<longrightarrow> fst (evaluate_article_in_background dumps sdk research_context product_context
              assignment_context research products article w) = Inl (KeyError k))
   \<and> fst (evaluate_article dumps sdk data trace_context w) \<noteq>
       Inl (KeyError ''AZURE_OPENAI_NAME'')
   \<and> (\<forall>inputs output.
        environ w ''AZURE_OPENAI_NAME'' = None
        \<and> dumps data = Inr inputs \<and> dumps article_result = Inr output
        \<and> list_all (\<lambda>k. environ w k \<noteq> None) required_variables
        \<and> (\<forall>cls args. sdk cls args = None)
      \<longrightarrow> fst (evaluate_article dumps sdk data trace_context w) = Inr article_result)"
proof (intro conjI allI impI)
  assume "\<exists>k \<in> set required_variables. environ w k = None"
  then obtain k where k: "first_unset w = Some k"
    using first_unset_exists by blast
  from k show "\<exists>err. fst (evaluate_article dumps sdk data trace_context w) = Inl err"
    by (rule evaluate_article_unset_raises)
  from k first_unset_Some [OF k]
  show "\<exists>k \<in> set required_variables. environ w k = None \<and> first_unset w = Some k"
    by blast
next
  fix k inputs
  assume "first_unset w = Some k \<and> dumps data = Inr inputs"
  then show "fst (evaluate_article dumps sdk data trace_context w) = Inl (KeyError k)"
    using evaluate_article_KeyError [where dumps = dumps and data = data] by blast
next
  fix e
  assume "dumps data = Inl e"
  then show "fst (evaluate_article dumps sdk data trace_context w) = Inl (JSONError e)"
    by (rule evaluate_article_unserialisable)
next
  fix k query_text context_text response_text record_text
  assume a: "first_unset w = Some k
        \<and> dumps (query_structure research_context product_context assignment_context) =
            Inr query_text
        \<and> dumps (context_structure research products) = Inr context_text
        \<and> dumps article = Inr response_text
        \<and> dumps (evaluation_input query_text context_text response_text) = Inr record_text"
  then have "fst (evaluate_article dumps sdk
      (evaluation_input query_text context_text response_text)
      (set_span_in_context (get_current_span w) w) w) = Inl (KeyError k)"
    using evaluate_article_KeyError
      [where dumps = dumps
        and data = "evaluation_input query_text context_text response_text"]
    by blast
  with a show "fst (evaluate_article_in_background dumps sdk research_context product_context
      assignment_context research products article w) = Inl (KeyError k)"
    using background_fst [where dumps = dumps and art = article]
    by simp
next
  show "fst (evaluate_article dumps sdk data trace_context w) \<noteq>
      Inl (KeyError ''AZURE_OPENAI_NAME'')"
  proof
    assume "fst (evaluate_article dumps sdk data trace_context w) =
      Inl (KeyError ''AZURE_OPENAI_NAME'')"
    then have "first_unset w = Some ''AZURE_OPENAI_NAME''"
      by (rule KeyError_first_unset)
    then have "''AZURE_OPENAI_NAME'' \<in> set required_variables"
      by (rule first_unset_Some)
    then show False
      by (simp add: required_variables_def)
  qed
next
  fix inputs out
  assume "environ w ''AZURE_OPENAI_NAME'' = None
        \<and> dumps data = Inr inputs \<and> dumps article_result = Inr out
        \<and> list_all (\<lambda>k. environ w k \<noteq> None) required_variables
        \<and> (\<forall>cls args. sdk cls args = None)"
  then show "fst (evaluate_article dumps sdk data trace_context w) = Inr article_result"
    using evaluate_article_returns [where dumps = dumps and data = data]
    by (simp add: first_unset_None_iff)
qed

theorem unset_variable_raises_witness:
  "(\<exists>k \<in> set required_variables. environ no_environment k = None)
   \<and> first_unset no_environment = Some ''AZURE_OPENAI_4_EVAL_DEPLOYMENT_NAME''
   \<and> example_dumps (PyStr ''draft'') = Inr (json_text (PyStr ''draft''))
   \<and> fst (evaluate_article example_dumps working_sdk (PyStr ''draft'') root_context
        no_environment) = Inl (KeyError ''AZURE_OPENAI_4_EVAL_DEPLOYMENT_NAME'')
   \<and> example_dumps (PyObject ''set'') = Inl TypeError
   \<and> fst (evaluate_article example_dumps working_sdk (PyObject ''set'') root_context
        no_environment) = Inl (JSONError TypeError)
   \<and> environ lab_environment ''AZURE_OPENAI_NAME'' = None
   \<and> example_dumps article_result = Inr (json_text article_result)
   \<and> list_all (\<lambda>k. environ lab_environment k \<noteq> None) required_variables
   \<and> (\<forall>cls args. working_sdk cls args = None)
   \<and> fst (evaluate_article example_dumps working_sdk (PyStr ''draft'') root_context
        lab_environment) = Inr article_result"
proof -
  have u: "\<exists>k \<in> set required_variables. environ no_environment k = None"
    by (auto simp add: no_environment_def required_variables_def)
  note f = first_unset_no_environment
  note d = example_dumps_PyStr [of "''draft''"]
  note o = example_dumps_PyObject [of "''set''"]
  note a = example_dumps_article_result
  have n: "environ lab_environment ''AZURE_OPENAI_NAME'' = None"
    by (simp add: lab_environment_def no_environment_def)
  note c = lab_environment_configured
  note s = working_sdk_returns
  from unset_variable_raises
    [where dumps = example_dumps and data = "PyStr ''draft''" and w = no_environment
      and sdk = working_sdk and trace_context = root_context] f d
  have 1: "fst (evaluate_article example_dumps working_sdk (PyStr ''draft'') root_context
        no_environment) = Inl (KeyError ''AZURE_OPENAI_4_EVAL_DEPLOYMENT_NAME'')"
    by blast
  from unset_variable_raises
    [where dumps = example_dumps and data = "PyObject ''set''" and w = no_environment
      and sdk = working_sdk and trace_context = root_context] o
  have 2: "fst (evaluate_article example_dumps working_sdk (PyObject ''set'') root_context
        no_environment) = Inl (JSONError TypeError)"
    by blast
  from unset_variable_raises
    [where dumps = example_dumps and data = "PyStr ''draft''" and w = lab_environment
      and sdk = working_sdk and trace_context = root_context] n d a c s
  have 3: "fst (evaluate_article example_dumps working_sdk (PyStr ''draft'') root_context
        lab_environment) = Inr article_result"
    by blast
  from u f d 1 o 2 n a c s 3 show ?thesis by blast
qed

text \<open>
  C4 as stated fails: with a required variable unset and an argument that
  \<^verbatim>\<open>json.dumps\<close> does not serialise, \<^verbatim>\<open>evaluate_article\<close> raises \<^verbatim>\<open>TypeError\<close>, not
  \<^verbatim>\<open>KeyError\<close>: \<^verbatim>\<open>json.dumps(data)\<close> runs before \<^verbatim>\<open>os.environ\<close> is read.
\<close>

theorem unserialisable_data_raises_before_KeyError:
  "environ no_environment ''AZURE_OPENAI_4_EVAL_DEPLOYMENT_NAME'' = None
   \<and> example_dumps (PyObject ''set'') = Inl TypeError
   \<and> fst (evaluate_article example_dumps working_sdk (PyObject ''set'') root_context
        no_environment) = Inl (JSONError TypeError)"
  using evaluate_article_unserialisable(1)
    [where dumps = example_dumps and data = "PyObject ''set''", OF example_dumps_PyObject]
  by (simp add: no_environment_def example_dumps_PyObject)

text \<open>
  C5, as amended. For every \<^verbatim>\<open>data\<close>, \<^verbatim>\<open>evaluate_article\<close> opens one span named
  \<^verbatim>\<open>run_evaluators\<close> in the trace context it is given, and ends it. When
  \<^verbatim>\<open>json.dumps(data)\<close> returns, the span carries that text as the attribute
  \<^verbatim>\<open>inputs\<close>; when it raises, the span has no attribute. When the call returns a
  dictionary, the span has the two attributes \<^verbatim>\<open>inputs\<close> and \<^verbatim>\<open>output\<close>, the second
  being the JSON text of that dictionary; when the call raises after
  \<^verbatim>\<open>json.dumps(data)\<close> has returned, the span has \<^verbatim>\<open>inputs\<close> only.
\<close>

theorem run_evaluators_span_attributes:
  "open_spans (snd (evaluate_article dumps sdk data trace_context w)) = open_spans w
   \<and> (\<exists>attrs. finished_spans (snd (evaluate_article dumps sdk data trace_context w)) =
        finished_spans w @ [run_evaluators_span trace_context attrs])
   \<and> (\<forall>inputs. dumps data = Inr inputs \<longrightarrow>
        (\<exists>attrs. finished_spans (snd (evaluate_article dumps sdk data trace_context w)) =
           finished_spans w @
             [run_evaluators_span trace_context ((''inputs'', inputs) # attrs)]))
   \<and> (\<forall>e. dumps data = Inl e \<longrightarrow>
        finished_spans (snd (evaluate_article dumps sdk data trace_context w)) =
          finished_spans w @ [run_evaluators_span trace_context []])
   \<and> (\<forall>result. fst (evaluate_article dumps sdk data trace_context w) = Inr result \<longrightarrow>
        (\<exists>inputs output. dumps data = Inr inputs \<and> dumps result = Inr output
           \<and> finished_spans (snd (evaluate_article dumps sdk data trace_context w)) =
               finished_spans w @
                 [run_evaluators_span trace_context
                    [(''inputs'', inputs), (''output'', output)]]))
   \<and> (\<forall>err inputs.
        fst (evaluate_article dumps sdk data trace_context w) = Inl err
        \<and> dumps data = Inr inputs \<longrightarrow>
        finished_spans (snd (evaluate_article dumps sdk data trace_context w)) =
          finished_spans w @ [run_evaluators_span trace_context [(''inputs'', inputs)]])"
proof (intro conjI allI impI)
  show "open_spans (snd (evaluate_article dumps sdk data trace_context w)) = open_spans w"
    by (rule evaluate_article_frame)
  show "\<exists>attrs. finished_spans (snd (evaluate_article dumps sdk data trace_context w)) =
        finished_spans w @ [run_evaluators_span trace_context attrs]"
    by (rule evaluate_article_span)
next
  fix inputs
  assume "dumps data = Inr inputs"
  then show "\<exists>attrs. finished_spans (snd (evaluate_article dumps sdk data trace_context w)) =
      finished_spans w @ [run_evaluators_span trace_context ((''inputs'', inputs) # attrs)]"
    by (rule evaluate_article_span_inputs)
next
  fix e
  assume "dumps data = Inl e"
  then show "finished_spans (snd (evaluate_article dumps sdk data trace_context w)) =
      finished_spans w @ [run_evaluators_span trace_context []]"
    by (rule evaluate_article_unserialisable)
next
  fix result
  assume r: "fst (evaluate_article dumps sdk data trace_context w) = Inr result"
  from evaluate_article_Inr(1) [OF r] evaluate_article_Inr(3) [OF r]
  show "\<exists>inputs output. dumps data = Inr inputs \<and> dumps result = Inr output
      \<and> finished_spans (snd (evaluate_article dumps sdk data trace_context w)) =
          finished_spans w @
            [run_evaluators_span trace_context [(''inputs'', inputs), (''output'', output)]]"
    by auto
next
  fix err inputs
  assume a: "fst (evaluate_article dumps sdk data trace_context w) = Inl err
        \<and> dumps data = Inr inputs"
  then have 1: "fst (evaluate_article dumps sdk data trace_context w) = Inl err"
    and 2: "dumps data = Inr inputs"
    by simp_all
  from 1 2 show "finished_spans (snd (evaluate_article dumps sdk data trace_context w)) =
      finished_spans w @ [run_evaluators_span trace_context [(''inputs'', inputs)]]"
    by (rule evaluate_article_Inl)
qed

theorem run_evaluators_span_attributes_witness:
  "fst (evaluate_article example_dumps working_sdk (PyStr ''draft'') root_context
      lab_environment) = Inr article_result
   \<and> (\<exists>inputs output.
        example_dumps (PyStr ''draft'') = Inr inputs
        \<and> example_dumps article_result = Inr output
        \<and> finished_spans (snd (evaluate_article example_dumps working_sdk (PyStr ''draft'')
            root_context lab_environment)) =
          [run_evaluators_span root_context [(''inputs'', inputs), (''output'', output)]])
   \<and> example_dumps (PyStr ''draft'') = Inr (json_text (PyStr ''draft''))
   \<and> fst (evaluate_article example_dumps working_sdk (PyStr ''draft'') root_context
        no_environment) = Inl (KeyError ''AZURE_OPENAI_4_EVAL_DEPLOYMENT_NAME'')
   \<and> finished_spans (snd (evaluate_article example_dumps working_sdk (PyStr ''draft'')
        root_context no_environment)) =
       [run_evaluators_span root_context [(''inputs'', json_text (PyStr ''draft''))]]
   \<and> example_dumps (PyObject ''set'') = Inl TypeError
   \<and> finished_spans (snd (evaluate_article example_dumps working_sdk (PyObject ''set'')
        root_context no_environment)) = [run_evaluators_span root_context []]"
proof -
  note r = evaluate_article_lab_environment [of "''draft''" root_context]
  note e = evaluate_article_no_environment [of working_sdk "''draft''" root_context]
  note d = example_dumps_PyStr [of "''draft''"]
  note o = example_dumps_PyObject [of "''set''"]
  have l: "finished_spans lab_environment = []" and n: "finished_spans no_environment = []"
    by (simp_all add: lab_environment_def no_environment_def)
  from run_evaluators_span_attributes
    [where dumps = example_dumps and data = "PyStr ''draft''" and w = lab_environment
      and sdk = working_sdk and trace_context = root_context] r l
  have 1: "\<exists>inputs output.
        example_dumps (PyStr ''draft'') = Inr inputs
        \<and> example_dumps article_result = Inr output
        \<and> finished_spans (snd (evaluate_article example_dumps working_sdk (PyStr ''draft'')
            root_context lab_environment)) =
          [run_evaluators_span root_context [(''inputs'', inputs), (''output'', output)]]"
    by simp
  from run_evaluators_span_attributes
    [where dumps = example_dumps and data = "PyStr ''draft''" and w = no_environment
      and sdk = working_sdk and trace_context = root_context] e d n
  have 2: "finished_spans (snd (evaluate_article example_dumps working_sdk (PyStr ''draft'')
        root_context no_environment)) =
       [run_evaluators_span root_context [(''inputs'', json_text (PyStr ''draft''))]]"
    by simp
  from run_evaluators_span_attributes
    [where dumps = example_dumps and data = "PyObject ''set''" and w = no_environment
      and sdk = working_sdk and trace_context = root_context] o n
  have 3: "finished_spans (snd (evaluate_article example_dumps working_sdk (PyObject ''set'')
        root_context no_environment)) = [run_evaluators_span root_context []]"
    by simp
  from r 1 d e 2 o 3 show ?thesis by blast
qed

text \<open>
  C5 as stated fails: with no environment variable set the call raises before the
  attribute \<^verbatim>\<open>output\<close> is set, and the span that ends has no such attribute.
\<close>

theorem unconfigured_span_has_no_output:
  "finished_spans (snd (evaluate_article example_dumps working_sdk (PyStr ''draft'')
      root_context no_environment)) =
     [run_evaluators_span root_context [(''inputs'', json_text (PyStr ''draft''))]]
   \<and> map_of (span_attributes (last (finished_spans (snd (evaluate_article example_dumps
        working_sdk (PyStr ''draft'') root_context no_environment))))) ''output'' = None"
proof -
  have "finished_spans (snd (evaluate_article example_dumps working_sdk (PyStr ''draft'')
      root_context no_environment)) =
     finished_spans no_environment @
       [run_evaluators_span root_context [(''inputs'', json_text (PyStr ''draft''))]]"
    by (rule evaluate_article_Inl
        [where dumps = example_dumps and data = "PyStr ''draft''",
          OF evaluate_article_no_environment example_dumps_PyStr])
  then show ?thesis
    by (simp add: no_environment_def run_evaluators_span_def)
qed

text \<open>
  C6. The public functions are deterministic and keep no state. Two calls of
  \<^verbatim>\<open>evaluate_article\<close>, or of \<^verbatim>\<open>evaluate_image\<close>, with equal arguments in states with
  equal environments have equal outcomes, and the two calls of \<^verbatim>\<open>evaluate_article\<close>
  emit the same span and print the same. A call leaves the environment, the current
  tracing context and the open spans as it found them, so the outcome of a later call
  is what it would have been without the earlier one.
\<close>

theorem calls_are_stateless:
  "(environ w1 = environ w2 \<longrightarrow>
      fst (evaluate_article dumps sdk data trace_context w1) =
        fst (evaluate_article dumps sdk data trace_context w2)
      \<and> fst (evaluate_image messages w1) = fst (evaluate_image messages w2)
      \<and> (\<exists>s p.
          finished_spans (snd (evaluate_article dumps sdk data trace_context w1)) =
            finished_spans w1 @ [s]
          \<and> finished_spans (snd (evaluate_article dumps sdk data trace_context w2)) =
            finished_spans w2 @ [s]
          \<and> printed (snd (evaluate_article dumps sdk data trace_context w1)) = printed w1 @ p
          \<and> printed (snd (evaluate_article dumps sdk data trace_context w2)) =
            printed w2 @ p))
   \<and> environ (snd (evaluate_article dumps sdk data trace_context w)) = environ w
   \<and> current_context (snd (evaluate_article dumps sdk data trace_context w)) =
       current_context w
   \<and> open_spans (snd (evaluate_article dumps sdk data trace_context w)) = open_spans w
   \<and> environ (snd (evaluate_image messages w)) = environ w
   \<and> current_context (snd (evaluate_image messages w)) = current_context w
   \<and> open_spans (snd (evaluate_image messages w)) = open_spans w
   \<and> fst (evaluate_article dumps sdk data' trace_context'
        (snd (evaluate_article dumps sdk data trace_context w))) =
       fst (evaluate_article dumps sdk data' trace_context' w)
   \<and> fst (evaluate_article dumps sdk data' trace_context' (snd (evaluate_image messages w))) =
       fst (evaluate_article dumps sdk data' trace_context' w)
   \<and> fst (evaluate_image messages' (snd (evaluate_article dumps sdk data trace_context w))) =
       fst (evaluate_image messages' w)
   \<and> fst (evaluate_image messages' (snd (evaluate_image messages w))) =
       fst (evaluate_image messages' w)"
proof (intro conjI impI)
  assume e: "environ w1 = environ w2"
  then show "fst (evaluate_article dumps sdk data trace_context w1) =
      fst (evaluate_article dumps sdk data trace_context w2)"
    by (rule environ_agree)
  from e show "\<exists>s p.
      finished_spans (snd (evaluate_article dumps sdk data trace_context w1)) =
        finished_spans w1 @ [s]
      \<and> finished_spans (snd (evaluate_article dumps sdk data trace_context w2)) =
        finished_spans w2 @ [s]
      \<and> printed (snd (evaluate_article dumps sdk data trace_context w1)) = printed w1 @ p
      \<and> printed (snd (evaluate_article dumps sdk data trace_context w2)) = printed w2 @ p"
    by (rule evaluate_article_same_effects)
next
  show "fst (evaluate_article dumps sdk data' trace_context'
        (snd (evaluate_article dumps sdk data trace_context w))) =
       fst (evaluate_article dumps sdk data' trace_context' w)"
    by (rule evaluate_article_after) (rule evaluate_article_frame)
  show "fst (evaluate_article dumps sdk data' trace_context' (snd (evaluate_image messages w))) =
       fst (evaluate_article dumps sdk data' trace_context' w)"
    by (rule evaluate_article_after) (simp add: evaluate_image_eq)
qed (simp_all add: evaluate_image_eq evaluate_article_frame)

theorem calls_are_stateless_witness:
  "environ (lab_environment\<lparr>printed := [[PyNone]]\<rparr>) = environ lab_environment
   \<and> fst (evaluate_article example_dumps working_sdk (PyStr ''draft'') root_context
        (lab_environment\<lparr>printed := [[PyNone]]\<rparr>)) =
       fst (evaluate_article example_dumps working_sdk (PyStr ''draft'') root_context
        lab_environment)
   \<and> fst (evaluate_image (PyStr ''picture'') (lab_environment\<lparr>printed := [[PyNone]]\<rparr>)) =
       fst (evaluate_image (PyStr ''picture'') lab_environment)"
proof -
  have e: "environ (lab_environment\<lparr>printed := [[PyNone]]\<rparr>) = environ lab_environment"
    by simp
  from calls_are_stateless
    [where ?w1.0 = "lab_environment\<lparr>printed := [[PyNone]]\<rparr>" and ?w2.0 = lab_environment
      and dumps = example_dumps and sdk = working_sdk and data = "PyStr ''draft''"
      and trace_context = root_context and messages = "PyStr ''picture''"] e
  show ?thesis by blast
qed

text \<open>
  C7. Every evaluation-result record that \<^verbatim>\<open>evaluate_article\<close>, \<^verbatim>\<open>evaluate_image\<close>,
  \<^verbatim>\<open>ArticleEvaluator.__call__\<close> or \<^verbatim>\<open>ImageEvaluator.__call__\<close> returns satisfies the
  data-model invariant: \<^verbatim>\<open>metrics\<close> maps names to integers, \<^verbatim>\<open>rows\<close> is a list of
  such mappings, and the names are fixed: those of the article record are the four
  quality metrics followed by the four defect rates, those of the image record are
  the five scores.
\<close>

theorem results_satisfy_data_model:
  "result_invariant (ArticleEvaluator_call article_evaluator data_path kwargs)
   \<and> metric_names (ArticleEvaluator_call article_evaluator data_path kwargs) =
       quality_metric_names @ defect_rate_names
   \<and> result_invariant (ImageEvaluator_call image_evaluator messages kwargs')
   \<and> metric_names (ImageEvaluator_call image_evaluator messages kwargs') = image_metric_names
   \<and> (\<forall>result. fst (evaluate_image messages w) = Inr result \<longrightarrow>
        result_invariant result \<and> metric_names result = image_metric_names)
   \<and> (\<forall>result. fst (evaluate_article dumps sdk data trace_context w) = Inr result \<longrightarrow>
        result_invariant result
        \<and> metric_names result = quality_metric_names @ defect_rate_names)"
proof (intro conjI allI impI)
  fix result
  assume "fst (evaluate_article dumps sdk data trace_context w) = Inr result"
  then have r: "result = article_result"
    by (rule evaluate_article_Inr)
  from r show "result_invariant result"
    by (simp add: result_invariant_article)
  from r show "metric_names result = quality_metric_names @ defect_rate_names"
    by (simp add: metric_names_article)
next
  fix result
  assume "fst (evaluate_image messages w) = Inr result"
  then have r: "result = image_result"
    by (simp add: evaluate_image_eq)
  from r show "result_invariant result"
    by (simp add: result_invariant_image)
  from r show "metric_names result = image_metric_names"
    by (simp add: metric_names_image)
qed (simp_all add: ArticleEvaluator_call_eq ImageEvaluator_call_eq result_invariant_article
    result_invariant_image metric_names_article metric_names_image)

theorem results_satisfy_data_model_witness:
  "fst (evaluate_image (PyStr ''picture'') lab_environment) = Inr image_result
   \<and> result_invariant image_result
   \<and> fst (evaluate_article example_dumps working_sdk (PyStr ''draft'') root_context
        lab_environment) = Inr article_result
   \<and> result_invariant article_result
   \<and> metric_names article_result = quality_metric_names @ defect_rate_names"
proof -
  have i: "fst (evaluate_image (PyStr ''picture'') lab_environment) = Inr image_result"
    by (simp add: evaluate_image_eq)
  note a = evaluate_article_lab_environment [of "''draft''" root_context]
  from results_satisfy_data_model
    [of "\<lparr>self_evaluators = [], self_project_scope = PyNone\<rparr>" PyNone "[]"
      "\<lparr>self_evaluators = [], self_project_scope = PyNone\<rparr>" "PyStr ''picture''" "[]"
      lab_environment example_dumps working_sdk "PyStr ''draft''" root_context]
    i a
  show ?thesis by blast
qed

text \<open>
  C8. \<^verbatim>\<open>evaluate_image\<close> needs nothing from its surroundings. For every argument and
  every state, also one with no environment variable set, it returns the image
  result literal and does not raise. It reads no environment variable: in another
  environment it does the same. It starts and ends no span and constructs no vendor
  object; all it does to the state is one call of \<^verbatim>\<open>print\<close>.
\<close>

theorem evaluate_image_needs_nothing:
  "fst (evaluate_image messages w) = Inr image_result
   \<and> fst (evaluate_image messages (w\<lparr>environ := Map.empty\<rparr>)) = Inr image_result
   \<and> evaluate_image messages (w\<lparr>environ := env\<rparr>) =
       (fst (evaluate_image messages w), (snd (evaluate_image messages w))\<lparr>environ := env\<rparr>)
   \<and> environ (snd (evaluate_image messages w)) = environ w
   \<and> current_context (snd (evaluate_image messages w)) = current_context w
   \<and> open_spans (snd (evaluate_image messages w)) = open_spans w
   \<and> finished_spans (snd (evaluate_image messages w)) = finished_spans w
   \<and> constructed (snd (evaluate_image messages w)) = constructed w
   \<and> printed (snd (evaluate_image messages w)) =
       printed w @ [[PyStr ''Image evaluation (lab mode):'', image_result]]"
  by (simp add: evaluate_image_eq)

text \<open>
  C9, as amended. \<^verbatim>\<open>evaluate_article_in_background\<close> first calls \<^verbatim>\<open>json.dumps\<close> three
  times: on \<^verbatim>\<open>{research_context, product_context, assignment_context}\<close>, on
  \<^verbatim>\<open>{research, products}\<close> and on \<^verbatim>\<open>article\<close>. When one of these calls raises, that
  exception leaves the function, \<^verbatim>\<open>evaluate_article\<close> is not called and the state is
  untouched. When the three return, the record of the three texts under \<^verbatim>\<open>query\<close>,
  \<^verbatim>\<open>context\<close> and \<^verbatim>\<open>response\<close> is passed to \<^verbatim>\<open>evaluate_article\<close> with the context of
  the current span: the state left is the one that call leaves. When that call
  returns, its result is discarded and \<^verbatim>\<open>None\<close> is returned, which happens whenever
  \<^verbatim>\<open>json.dumps\<close> also returns on the record and on the result literal, the five
  required variables are set and the vendor constructors return; when that call
  raises, the exception leaves \<^verbatim>\<open>evaluate_article_in_background\<close>.
\<close>

theorem background_passes_evaluation_input:
  "(\<forall>query_text context_text response_text.
      dumps (query_structure research_context product_context assignment_context) =
        Inr query_text
      \<and> dumps (context_structure research products) = Inr context_text
      \<and> dumps article = Inr response_text
    \<longrightarrow>
      snd (evaluate_article_in_background dumps sdk research_context product_context
           assignment_context research products article w) =
        snd (evaluate_article dumps sdk
           (evaluation_input query_text context_text response_text)
           (set_span_in_context (get_current_span w) w) w)
      \<and> fst (evaluate_article_in_background dumps sdk research_context product_context
           assignment_context research products article w) =
        (case fst (evaluate_article dumps sdk
             (evaluation_input query_text context_text response_text)
             (set_span_in_context (get_current_span w) w) w) of
           Inl err \<Rightarrow> Inl err
         | Inr result \<Rightarrow> Inr PyNone)
      \<and> (\<forall>record_text output.
           dumps (evaluation_input query_text context_text response_text) = Inr record_text
           \<and> dumps article_result = Inr output
           \<and> list_all (\<lambda>k. environ w k \<noteq> None) required_variables
           \<and> (\<forall>cls args. sdk cls args = None)
         \<longrightarrow> fst (evaluate_article_in_background dumps sdk research_context
                 product_context assignment_context research products article w) =
               Inr PyNone))
   \<and> (\<forall>e. dumps (query_structure research_context product_context assignment_context) =
          Inl e
        \<or> (\<exists>query_text.
             dumps (query_structure research_context product_context assignment_context) =
               Inr query_text
             \<and> (dumps (context_structure research products) = Inl e
                \<or> (\<exists>context_text. dumps (context_structure research products) =
                       Inr context_text
                     \<and> dumps article = Inl e)))
      \<longrightarrow> evaluate_article_in_background dumps sdk research_context product_context
             assignment_context research products article w = (Inl (JSONError e), w))"
proof (intro conjI allI impI)
  fix query_text context_text response_text
  assume "dumps (query_structure research_context product_context assignment_context) =
        Inr query_text
      \<and> dumps (context_structure research products) = Inr context_text
      \<and> dumps article = Inr response_text"
  then have q: "dumps (query_structure research_context product_context assignment_context) =
        Inr query_text"
    and c: "dumps (context_structure research products) = Inr context_text"
    and r: "dumps article = Inr response_text"
    by simp_all
  show "snd (evaluate_article_in_background dumps sdk research_context product_context
           assignment_context research products article w) =
        snd (evaluate_article dumps sdk
           (evaluation_input query_text context_text response_text)
           (set_span_in_context (get_current_span w) w) w)"
    by (rule background_snd [where dumps = dumps and art = article, OF q c r])
  show f: "fst (evaluate_article_in_background dumps sdk research_context product_context
           assignment_context research products article w) =
        (case fst (evaluate_article dumps sdk
             (evaluation_input query_text context_text response_text)
             (set_span_in_context (get_current_span w) w) w) of
           Inl err \<Rightarrow> Inl err
         | Inr result \<Rightarrow> Inr PyNone)"
    by (rule background_fst [where dumps = dumps and art = article, OF q c r])
  fix record_text out
  assume "dumps (evaluation_input query_text context_text response_text) = Inr record_text
           \<and> dumps article_result = Inr out
           \<and> list_all (\<lambda>k. environ w k \<noteq> None) required_variables
           \<and> (\<forall>cls args. sdk cls args = None)"
  then have "fst (evaluate_article dumps sdk
      (evaluation_input query_text context_text response_text)
      (set_span_in_context (get_current_span w) w) w) = Inr article_result"
    using evaluate_article_returns
      [where dumps = dumps
        and data = "evaluation_input query_text context_text response_text"]
    by (simp add: first_unset_None_iff)
  with f show "fst (evaluate_article_in_background dumps sdk research_context
      product_context assignment_context research products article w) = Inr PyNone"
    by simp
next
  fix e
  assume "dumps (query_structure research_context product_context assignment_context) =
          Inl e
        \<or> (\<exists>query_text.
             dumps (query_structure research_context product_context assignment_context) =
               Inr query_text
             \<and> (dumps (context_structure research products) = Inl e
                \<or> (\<exists>context_text. dumps (context_structure research products) =
                       Inr context_text
                     \<and> dumps article = Inl e)))"
  then consider
      (first) "dumps (query_structure research_context product_context assignment_context) =
        Inl e"
    | (second) query_text where
        "dumps (query_structure research_context product_context assignment_context) =
          Inr query_text"
        "dumps (context_structure research products) = Inl e"
    | (third) query_text context_text where
        "dumps (query_structure research_context product_context assignment_context) =
          Inr query_text"
        "dumps (context_structure research products) = Inr context_text"
        "dumps article = Inl e"
    by blast
  then show "evaluate_article_in_background dumps sdk research_context product_context
      assignment_context research products article w = (Inl (JSONError e), w)"
  proof cases
    case first
    then show ?thesis
      by (rule background_raises_first)
  next
    case second
    then show ?thesis
      by (rule background_raises_second)
  next
    case third
    then show ?thesis
      by (rule background_raises_third)
  qed
qed

theorem background_passes_evaluation_input_witness:
  "(\<exists>query_text context_text response_text record_text output.
      example_dumps (query_structure (PyStr ''research context'') (PyStr ''product context'')
        (PyStr ''assignment'')) = Inr query_text
      \<and> example_dumps (context_structure (PyList []) (PyList [])) = Inr context_text
      \<and> example_dumps (PyStr ''draft'') = Inr response_text
      \<and> example_dumps (evaluation_input query_text context_text response_text) =
          Inr record_text
      \<and> example_dumps article_result = Inr output)
   \<and> list_all (\<lambda>k. environ lab_environment k \<noteq> None) required_variables
   \<and> (\<forall>cls args. working_sdk cls args = None)
   \<and> fst (evaluate_article_in_background example_dumps working_sdk
        (PyStr ''research context'') (PyStr ''product context'') (PyStr ''assignment'')
        (PyList []) (PyList []) (PyStr ''draft'') lab_environment) = Inr PyNone
   \<and> example_dumps (PyObject ''set'') = Inl TypeError
   \<and> evaluate_article_in_background example_dumps working_sdk
        (PyStr ''research context'') (PyStr ''product context'') (PyStr ''assignment'')
        (PyList []) (PyList []) (PyObject ''set'') lab_environment =
       (Inl (JSONError TypeError), lab_environment)"
proof -
  define query_text where "query_text = json_text (query_structure
    (PyStr ''research context'') (PyStr ''product context'') (PyStr ''assignment''))"
  define context_text where "context_text =
    json_text (context_structure (PyList []) (PyList []))"
  define response_text where "response_text = json_text (PyStr ''draft'')"
  have q: "example_dumps (query_structure (PyStr ''research context'')
      (PyStr ''product context'') (PyStr ''assignment'')) = Inr query_text"
    by (simp add: example_dumps_def query_structure_def query_text_def)
  have c: "example_dumps (context_structure (PyList []) (PyList [])) = Inr context_text"
    by (simp add: example_dumps_def context_structure_def context_text_def)
  have r: "example_dumps (PyStr ''draft'') = Inr response_text"
    by (simp add: example_dumps_def response_text_def)
  have i: "example_dumps (evaluation_input query_text context_text response_text) =
      Inr (json_text (evaluation_input query_text context_text response_text))"
    by (simp add: example_dumps_def evaluation_input_def)
  note a = example_dumps_article_result
  note l = lab_environment_configured
  note s = working_sdk_returns
  note o = example_dumps_PyObject [of "''set''"]
  from background_passes_evaluation_input
    [where dumps = example_dumps and sdk = working_sdk
      and research_context = "PyStr ''research context''"
      and product_context = "PyStr ''product context''"
      and assignment_context = "PyStr ''assignment''"
      and research = "PyList []" and products = "PyList []"
      and article = "PyStr ''draft''" and w = lab_environment] q c r i a l s
  have 1: "fst (evaluate_article_in_background example_dumps working_sdk
        (PyStr ''research context'') (PyStr ''product context'') (PyStr ''assignment'')
        (PyList []) (PyList []) (PyStr ''draft'') lab_environment) = Inr PyNone"
    by blast
  from background_passes_evaluation_input
    [where dumps = example_dumps and sdk = working_sdk
      and research_context = "PyStr ''research context''"
      and product_context = "PyStr ''product context''"
      and assignment_context = "PyStr ''assignment''"
      and research = "PyList []" and products = "PyList []"
      and article = "PyObject ''set''" and w = lab_environment] q c o
  have 2: "evaluate_article_in_background example_dumps working_sdk
        (PyStr ''research context'') (PyStr ''product context'') (PyStr ''assignment'')
        (PyList []) (PyList []) (PyObject ''set'') lab_environment =
       (Inl (JSONError TypeError), lab_environment)"
    by blast
  from q c r i a l s 1 o 2 show ?thesis by blast
qed

text \<open>
  C9 as stated fails: with no environment variable set, the exception of
  \<^verbatim>\<open>evaluate_article\<close> leaves \<^verbatim>\<open>evaluate_article_in_background\<close>, which returns
  nothing.
\<close>

theorem background_raises_unconfigured:
  "fst (evaluate_article_in_background example_dumps working_sdk
      (PyStr ''research context'') (PyStr ''product context'') (PyStr ''assignment'')
      (PyList []) (PyList []) (PyStr ''draft'') no_environment) =
     Inl (KeyError ''AZURE_OPENAI_4_EVAL_DEPLOYMENT_NAME'')
   \<and> fst (evaluate_article_in_background example_dumps working_sdk
      (PyStr ''research context'') (PyStr ''product context'') (PyStr ''assignment'')
      (PyList []) (PyList []) (PyStr ''draft'') no_environment) \<noteq> Inr PyNone"
proof -
  have q: "example_dumps (query_structure (PyStr ''research context'')
      (PyStr ''product context'') (PyStr ''assignment'')) =
    Inr (json_text (query_structure (PyStr ''research context'')
      (PyStr ''product context'') (PyStr ''assignment'')))"
    by (simp add: example_dumps_def query_structure_def)
  have c: "example_dumps (context_structure (PyList []) (PyList [])) =
    Inr (json_text (context_structure (PyList []) (PyList [])))"
    by (simp add: example_dumps_def context_structure_def)
  note r = example_dumps_PyStr [of "''draft''"]
  have i: "example_dumps (evaluation_input
      (json_text (query_structure (PyStr ''research context'')
        (PyStr ''product context'') (PyStr ''assignment'')))
      (json_text (context_structure (PyList []) (PyList [])))
      (json_text (PyStr ''draft''))) =
    Inr (json_text (evaluation_input
      (json_text (query_structure (PyStr ''research context'')
        (PyStr ''product context'') (PyStr ''assignment'')))
      (json_text (context_structure (PyList []) (PyList [])))
      (json_text (PyStr ''draft''))))"
    by (simp add: example_dumps_def evaluation_input_def)
  have "fst (evaluate_article example_dumps working_sdk
      (evaluation_input
        (json_text (query_structure (PyStr ''research context'')
          (PyStr ''product context'') (PyStr ''assignment'')))
        (json_text (context_structure (PyList []) (PyList [])))
        (json_text (PyStr ''draft'')))
      (set_span_in_context (get_current_span no_environment) no_environment)
      no_environment) = Inl (KeyError ''AZURE_OPENAI_4_EVAL_DEPLOYMENT_NAME'')"
    by (rule evaluate_article_KeyError
        [where dumps = example_dumps, OF first_unset_no_environment i])
  then show ?thesis
    by (simp add: background_fst [where dumps = example_dumps, OF q c r])
qed

text \<open>
  C10. In every result of \<^verbatim>\<open>evaluate_article\<close> and of \<^verbatim>\<open>ArticleEvaluator.__call__\<close>,
  \<^verbatim>\<open>rows\<close> has exactly one row, the keys of the row are the four quality metrics, and
  the four defect rates, which are keys of \<^verbatim>\<open>metrics\<close>, are not keys of the row.
\<close>

theorem article_rows_hold_quality_metrics_only:
  "one_quality_row (ArticleEvaluator_call article_evaluator data_path kwargs)
   \<and> (\<forall>result. fst (evaluate_article dumps sdk data trace_context w) = Inr result \<longrightarrow>
        one_quality_row result)"
proof (intro conjI allI impI)
  show "one_quality_row (ArticleEvaluator_call article_evaluator data_path kwargs)"
    by (simp add: ArticleEvaluator_call_eq one_quality_row_article)
next
  fix result
  assume "fst (evaluate_article dumps sdk data trace_context w) = Inr result"
  then have "result = article_result"
    by (rule evaluate_article_Inr)
  then show "one_quality_row result"
    by (simp add: one_quality_row_article)
qed

theorem article_rows_hold_quality_metrics_only_witness:
  "fst (evaluate_article example_dumps working_sdk (PyStr ''draft'') root_context
      lab_environment) = Inr article_result
   \<and> one_quality_row article_result
   \<and> dict_get article_result ''rows'' = Some (PyList [PyDict
        [(''relevance.gpt_relevance'', PyInt 5),
         (''fluency.gpt_fluency'', PyInt 5),
         (''coherence.gpt_coherence'', PyInt 5),
         (''groundedness.gpt_groundedness'', PyInt 5)]])"
proof -
  note a = evaluate_article_lab_environment [of "''draft''" root_context]
  have d: "dict_get article_result ''rows'' = Some (PyList [PyDict
        [(''relevance.gpt_relevance'', PyInt 5),
         (''fluency.gpt_fluency'', PyInt 5),
         (''coherence.gpt_coherence'', PyInt 5),
         (''groundedness.gpt_groundedness'', PyInt 5)]])"
    by (simp add: article_result_def)
  from article_rows_hold_quality_metrics_only
    [of "\<lparr>self_evaluators = [], self_project_scope = PyNone\<rparr>" PyNone "[]"
      example_dumps working_sdk "PyStr ''draft''" root_context lab_environment] a d
  show ?thesis by blast
qed

end
